theory Spec2Isabelle
  imports Main "HOL-Library.Word" "HOL-Library.Sublist"
begin

unbundle bit_operations_syntax

section \<open>The JNI entrypoints of quick\_jni\_entrypoints.cc\<close>

text \<open>
  The file under verification is the set of entrypoints that compiled managed code calls
  immediately before (\<open>JniMethod*Start*\<close>) and after (\<open>JniMethod*End*\<close>,
  \<open>GenericJniMethodEnd\<close>) a native method, plus the read barrier for the declaring
  class of a static native method. The entrypoints are embedded function by function.
  What they call in the rest of the runtime (\<open>Thread\<close>, \<open>JNIEnvExt\<close>,
  \<open>Monitor\<close>, the palette hooks, the collector) is not part of the file: the state
  those calls read and write is a record, and what they answer is a parameter.
\<close>

subsection \<open>Data\<close>

text \<open>\<open>mirror::Object*\<close> and \<open>jobject\<close>: an address or an opaque handle;
  \<open>0\<close> is \<open>nullptr\<close>.\<close>

type_synonym objptr = "64 word"
type_synonym jobject = "64 word"

text \<open>\<open>IRTSegmentState\<close>, which the file asserts to be 32 bits wide and trivial, so
  that \<open>bit_cast\<close> to and from \<open>uint32_t\<close> is the identity on the bits.\<close>

type_synonym IRTSegmentState = "32 word"

datatype ThreadState = kRunnable | kNative | kSuspended

datatype InstructionSet = kNone | kArm | kArm64 | kThumb2 | kX86 | kX86_64

text \<open>What the file reads of an \<open>ArtMethod\<close>. The three access flags are independent
  bits of the method's access flags.\<close>

record ArtMethod =
  IsFastNative :: bool
  IsCriticalNative :: bool
  IsSynchronized :: bool
  GetShorty :: string
  PrettyMethod :: string

text \<open>\<open>jvalue\<close> is a union; the file reads one member of it, chosen by the return
  shorty. Each member the file reads is a field here (the overlap of the members' storage
  is not modelled).\<close>

record jvalue =
  jv_z :: "8 word"
  jv_b :: "8 word"
  jv_c :: "16 word"
  jv_s :: "16 word"
  jv_i :: "32 word"
  jv_j :: "64 word"
  jv_l :: jobject

text \<open>The calls the entrypoints make into the runtime, in the order they are made.\<close>

datatype event =
    EvPaletteNotifyBeginJniInvocation
  | EvPaletteNotifyEndJniInvocation
  | EvTransitionFromRunnableToSuspended ThreadState
  | EvTransitionFromSuspendedToRunnable
  | EvTestAllFlags
  | EvCheckSuspend
  | EvMonitorEnter objptr
  | EvMonitorExit objptr
  | EvDecodeJObject jobject
  | EvClearException
  | EvSetException objptr
  | EvSetLocalRefCookie IRTSegmentState
  | EvSetLocalSegmentState IRTSegmentState
  | EvCheckNoHeldMonitors
  | EvCheckReferenceResult objptr
  | EvVerifyObject objptr
  | EvBarrierForRoot objptr

text \<open>
  \<open>Thread* self\<close> together with its \<open>JNIEnvExt\<close>:
  \<^item> \<open>thr_state\<close>, \<open>thr_flags\<close>: the state and the flags of \<open>state_and_flags\<close>;
  \<^item> \<open>thr_exception\<close>: the pending exception, \<open>0\<close> when none is pending;
  \<^item> \<open>env_local_ref_cookie\<close>, \<open>env_locals_segment_state\<close>: the saved cookie of the
    environment and the segment state of its local reference table;
  \<^item> \<open>env_check_jni\<close>: whether CheckJNI is enabled;
  \<^item> \<open>top_quick_frame\<close>: the method \<open>*self->GetManagedStack()->GetTopQuickFrame()\<close>;
  \<^item> \<open>trace\<close>: every call made into the runtime so far, each with the state the thread
    was in when the call was made.
\<close>

record Thread =
  thr_state :: ThreadState
  thr_flags :: "16 word"
  thr_exception :: objptr
  env_local_ref_cookie :: IRTSegmentState
  env_locals_segment_state :: IRTSegmentState
  env_check_jni :: bool
  top_quick_frame :: ArtMethod
  trace :: "(event \<times> ThreadState) list"

text \<open>\<open>Runtime::Current()\<close>: the configuration item the added tracing code reads and
  writes, and the log it writes to with \<open>ALOGD\<close>.\<close>

record Runtime =
  isJNIMethodPrint :: bool
  jniFuncName :: string
  jniEnable :: bool
  logcat :: "string list"

text \<open>Compile-time constants of the build.\<close>

record Build =
  kIsDebugBuild :: bool
  kUseReadBarrier :: bool
  kUseBakerReadBarrier :: bool
  kRuntimeISA :: InstructionSet

text \<open>
  What the collaborators answer. Each is consulted with the arguments the file passes:
  \<^item> \<open>ext_DecodeJObject\<close>: the object a handle refers to;
  \<^item> \<open>ext_MonitorExit_throws\<close>: the exception \<open>MonitorExit\<close> leaves pending on the
    thread, \<open>0\<close> when the release succeeds;
  \<^item> \<open>ext_CheckNoHeldMonitors_ok\<close>, \<open>ext_CheckReferenceResult_ok\<close>,
    \<open>ext_VerifyObject_ok\<close>: whether the check passes (a failed check aborts);
  \<^item> \<open>ext_PaletteShouldReportJniInvocations\<close>: what the palette stores in
    \<open>should_report\<close>;
  \<^item> \<open>ext_GetGenericJniSynchronizationObject\<close>: the lock handle of a synchronized method;
  \<^item> \<open>ext_GetMarkBit\<close>, \<open>ext_BarrierForRoot\<close>: the mark bit of an object and the
    collector's barrier for a root;
  \<^item> \<open>ext_static_cast_float\<close>: \<open>static_cast<float>\<close> of a \<open>double\<close>, both
    given by their IEEE bit patterns (so that \<open>bit_cast\<close> is the identity).
\<close>

record Ext =
  ext_DecodeJObject :: "jobject \<Rightarrow> objptr"
  ext_MonitorExit_throws :: "objptr \<Rightarrow> objptr"
  ext_CheckNoHeldMonitors_ok :: bool
  ext_CheckReferenceResult_ok :: "objptr \<Rightarrow> bool"
  ext_VerifyObject_ok :: "objptr \<Rightarrow> bool"
  ext_PaletteShouldReportJniInvocations :: bool
  ext_GetGenericJniSynchronizationObject :: "ArtMethod \<Rightarrow> jobject"
  ext_GetMarkBit :: "objptr \<Rightarrow> 32 word"
  ext_BarrierForRoot :: "objptr \<Rightarrow> objptr"
  ext_static_cast_float :: "64 word \<Rightarrow> 32 word"

text \<open>The ways the process is terminated: a failed \<open>CHECK\<close> or \<open>DCHECK\<close> of a
  debug build, the \<open>LOG(FATAL)\<close> of \<open>UnlockJniSynchronizedMethod\<close> with the saved and
  the second exception, the \<open>LOG(FATAL)\<close> on an unknown return shorty, and an abort raised
  by one of the runtime's checks. An aborted call gives \<open>Inl\<close> of the reason and the
  thread as it was at the abort.\<close>

datatype fatal =
    CheckFailed string
  | SecondException objptr objptr
  | UnexpectedShorty char
  | JniAbort string

type_synonym 'a result = "(fatal \<times> Thread) + 'a"

definition and_then :: "'a result \<Rightarrow> ('a \<Rightarrow> 'b result) \<Rightarrow> 'b result" where
  "and_then m f = (case m of Inl e \<Rightarrow> Inl e | Inr v \<Rightarrow> f v)"

subsection \<open>The runtime calls\<close>

text \<open>
  The methods of \<open>Thread\<close>, \<open>JNIEnvExt\<close> and \<open>mirror::Object\<close>, the palette hooks and
  the runtime's checks that the file calls. Their code is not in the file; each is given the
  effect on the thread that the entrypoints rely on, and records its call in the trace.
  \<open>CHECK\<close> under \<open>kIsDebugBuild\<close> and \<open>DCHECK\<close> are the checks of a debug build.
\<close>

definition emit :: "event \<Rightarrow> Thread \<Rightarrow> Thread" where
  "emit e self = self\<lparr>trace := trace self @ [(e, thr_state self)]\<rparr>"

text \<open>Modelled from the spec: the pending-exception slot of the thread descriptor, with its
  get, set and clear operations.\<close>

definition IsExceptionPending :: "Thread \<Rightarrow> bool" where
  "IsExceptionPending self = (thr_exception self \<noteq> 0)"

definition GetException :: "Thread \<Rightarrow> objptr" where
  "GetException self = thr_exception self"

definition ClearException :: "Thread \<Rightarrow> Thread" where
  "ClearException self = emit EvClearException (self\<lparr>thr_exception := 0\<rparr>)"

definition SetException :: "objptr \<Rightarrow> Thread \<Rightarrow> Thread" where
  "SetException e self = emit (EvSetException e) (self\<lparr>thr_exception := e\<rparr>)"

text \<open>Modelled from the spec: the decoding of a handle, and the entering of an object's
  monitor.\<close>

definition DecodeJObject :: "Ext \<Rightarrow> jobject \<Rightarrow> Thread \<Rightarrow> Thread \<times> objptr" where
  "DecodeJObject x h self = (emit (EvDecodeJObject h) self, ext_DecodeJObject x h)"

definition MonitorEnter :: "objptr \<Rightarrow> Thread \<Rightarrow> Thread" where
  "MonitorEnter obj self = emit (EvMonitorEnter obj) self"

text \<open>Modelled from the spec: the release of a monitor. A release that fails leaves its
  exception pending on the thread.\<close>

definition MonitorExit :: "Ext \<Rightarrow> objptr \<Rightarrow> Thread \<Rightarrow> Thread" where
  "MonitorExit x obj self =
     (let self1 = emit (EvMonitorExit obj) self
      in if ext_MonitorExit_throws x obj \<noteq> 0
         then self1\<lparr>thr_exception := ext_MonitorExit_throws x obj\<rparr>
         else self1)"

text \<open>Modelled from the spec: the two transitions of the thread state machine, which are
  methods of \<open>Thread\<close>. Enter-native takes the thread from Runnable to the state it is
  given; Exit-native takes it back to Runnable.\<close>

definition TransitionFromRunnableToSuspended :: "ThreadState \<Rightarrow> Thread \<Rightarrow> Thread" where
  "TransitionFromRunnableToSuspended new_state self =
     (emit (EvTransitionFromRunnableToSuspended new_state) self)\<lparr>thr_state := new_state\<rparr>"

definition TransitionFromSuspendedToRunnable :: "Thread \<Rightarrow> Thread" where
  "TransitionFromSuspendedToRunnable self =
     (emit EvTransitionFromSuspendedToRunnable self)\<lparr>thr_state := kRunnable\<rparr>"

text \<open>\<open>TestAllFlags\<close>: whether any flag of the thread is raised.\<close>

definition TestAllFlags :: "Thread \<Rightarrow> Thread \<times> bool" where
  "TestAllFlags self = (emit EvTestAllFlags self, thr_flags self \<noteq> 0)"

text \<open>Modelled from the spec: the cooperative pause of \<open>Thread::CheckSuspend\<close>. The thread
  is Runnable again when it returns; what the collector does to the flags meanwhile is not
  modelled.\<close>

definition CheckSuspend :: "Thread \<Rightarrow> Thread" where
  "CheckSuspend self = emit EvCheckSuspend self"

text \<open>Modelled from the spec: the shared hold of the mutator lock is what being Runnable
  means.\<close>

definition IsSharedHeld :: "Thread \<Rightarrow> bool" where
  "IsSharedHeld self = (thr_state self = kRunnable)"

text \<open>Modelled from the spec: the setters of the saved cookie and of the segment state of
  the local reference table (the getters are the fields).\<close>

definition SetLocalRefCookie :: "IRTSegmentState \<Rightarrow> Thread \<Rightarrow> Thread" where
  "SetLocalRefCookie v self = emit (EvSetLocalRefCookie v) (self\<lparr>env_local_ref_cookie := v\<rparr>)"

definition SetLocalSegmentState :: "IRTSegmentState \<Rightarrow> Thread \<Rightarrow> Thread" where
  "SetLocalSegmentState v self =
     emit (EvSetLocalSegmentState v) (self\<lparr>env_locals_segment_state := v\<rparr>)"

text \<open>Modelled from the spec: the held-monitor check of CheckJNI, the check of a reference
  result and the verification of an object. Each aborts when it fails.\<close>

definition CheckNoHeldMonitors :: "Ext \<Rightarrow> Thread \<Rightarrow> Thread result" where
  "CheckNoHeldMonitors x self =
     (let self1 = emit EvCheckNoHeldMonitors self
      in if ext_CheckNoHeldMonitors_ok x then Inr self1
         else Inl (JniAbort ''Still holding a locked object on JNI end'', self1))"

definition CheckReferenceResult :: "Ext \<Rightarrow> objptr \<Rightarrow> Thread \<Rightarrow> Thread result" where
  "CheckReferenceResult x obj self =
     (let self1 = emit (EvCheckReferenceResult obj) self
      in if ext_CheckReferenceResult_ok x obj then Inr self1
         else Inl (JniAbort ''attempt to return an instance of the wrong type'', self1))"

definition VerifyObject :: "Ext \<Rightarrow> objptr \<Rightarrow> Thread \<Rightarrow> Thread result" where
  "VerifyObject x obj self =
     (let self1 = emit (EvVerifyObject obj) self
      in if ext_VerifyObject_ok x obj then Inr self1
         else Inl (JniAbort ''VerifyObject'', self1))"

text \<open>\<open>strstr(haystack, needle) != nullptr\<close>.\<close>

fun strstr :: "string \<Rightarrow> string \<Rightarrow> bool" where
  "strstr [] needle = (needle = [])"
| "strstr (ch # cs) needle = (prefix needle (ch # cs) \<or> strstr cs needle)"

definition ALOGD :: "string \<Rightarrow> Runtime \<Rightarrow> Runtime" where
  "ALOGD msg rt = rt\<lparr>logcat := logcat rt @ [msg]\<rparr>"

subsection \<open>The entrypoints\<close>

text \<open>The macro \<open>MONITOR_JNI(kind)\<close>: the hook is called when the palette says that JNI
  invocations are to be reported.\<close>

definition MONITOR_JNI :: "event \<Rightarrow> Ext \<Rightarrow> Thread \<Rightarrow> Thread" where
  "MONITOR_JNI kind x self =
     (let should_report = ext_PaletteShouldReportJniInvocations x
      in if should_report then emit kind self else self)"

text \<open>The root \<open>*declaring_class\<close> is passed in, and the root as the call leaves it is
  returned. A debug build checks that a read barrier is in use and, with the Baker barrier,
  that the class is not null.\<close>

definition ReadBarrierJni :: "Build \<Rightarrow> Ext \<Rightarrow> objptr \<Rightarrow> Thread \<Rightarrow> (Thread \<times> objptr) result" where
  "ReadBarrierJni b x declaring_class self =
     (let barrier = (let to_ref = ext_BarrierForRoot x declaring_class
                     in Inr (emit (EvBarrierForRoot declaring_class) self, to_ref))
      in if kIsDebugBuild b \<and> \<not> kUseReadBarrier b
         then Inl (CheckFailed ''kUseReadBarrier'', self)
         else if kUseBakerReadBarrier b
         then (if kIsDebugBuild b \<and> declaring_class = 0
               then Inl (CheckFailed ''The class of a static jni call must not be null'', self)
               else if ext_GetMarkBit x declaring_class \<noteq> 0
               then Inr (self, declaring_class)
               else barrier)
         else barrier)"

text \<open>The environment is part of the thread here, so \<open>DCHECK(env != nullptr)\<close> of the
  Starts always holds. The cookie returned is the saved cookie the environment had; the new
  saved cookie is the segment state.\<close>

definition JniMethodFastStart :: "Build \<Rightarrow> Thread \<Rightarrow> (Thread \<times> 32 word) result" where
  "JniMethodFastStart b self =
     (let saved_local_ref_cookie = env_local_ref_cookie self;
          self1 = SetLocalRefCookie (env_locals_segment_state self) self
      in if kIsDebugBuild b \<and> \<not> IsFastNative (top_quick_frame self1)
         then Inl (CheckFailed ''native_method->IsFastNative()'', self1)
         else Inr (self1, saved_local_ref_cookie))"

text \<open>The log line of the added tracing code is written without the thread's address.\<close>

definition JniMethodStart :: "Build \<Rightarrow> Runtime \<Rightarrow> Thread \<Rightarrow> (Runtime \<times> Thread \<times> 32 word) result" where
  "JniMethodStart b rt self =
     (let saved_local_ref_cookie = env_local_ref_cookie self;
          self1 = SetLocalRefCookie (env_locals_segment_state self) self;
          rt1 = (if isJNIMethodPrint rt
                 then (let methodname = PrettyMethod (top_quick_frame self1)
                       in if strstr methodname (jniFuncName rt)
                          then (ALOGD (''[ROM] enter jni '' @ methodname) rt)\<lparr>jniEnable := True\<rparr>
                          else rt)
                 else rt)
      in if kIsDebugBuild b \<and> IsFastNative (top_quick_frame self1)
         then Inl (CheckFailed ''!native_method->IsFastNative()'', self1)
         else Inr (rt1, TransitionFromRunnableToSuspended kNative self1, saved_local_ref_cookie))"

definition JniMethodStartSynchronized ::
    "Build \<Rightarrow> Ext \<Rightarrow> Runtime \<Rightarrow> jobject \<Rightarrow> Thread \<Rightarrow> (Runtime \<times> Thread \<times> 32 word) result" where
  "JniMethodStartSynchronized b x rt to_lock self =
     (case DecodeJObject x to_lock self of
        (self1, obj) \<Rightarrow> JniMethodStart b rt (MonitorEnter obj self1))"

definition GoToRunnable :: "Build \<Rightarrow> Thread \<Rightarrow> Thread result" where
  "GoToRunnable b self =
     (if kIsDebugBuild b \<and> IsFastNative (top_quick_frame self)
      then Inl (CheckFailed ''!native_method->IsFastNative()'', self)
      else Inr (TransitionFromSuspendedToRunnable self))"

definition GoToRunnableFast :: "Build \<Rightarrow> Thread \<Rightarrow> Thread result" where
  "GoToRunnableFast b self =
     (if kIsDebugBuild b \<and> \<not> IsFastNative (top_quick_frame self)
      then Inl (CheckFailed ''native_method->IsFastNative()'', self)
      else
        (case TestAllFlags self of
           (self1, raised) \<Rightarrow>
             if raised
             then (if kIsDebugBuild b \<and> \<not> IsSharedHeld self1
                   then Inl (CheckFailed ''Locks::mutator_lock_->IsSharedHeld(self)'', self1)
                   else Inr (CheckSuspend self1))
             else Inr self1))"

definition PopLocalReferences :: "Ext \<Rightarrow> 32 word \<Rightarrow> Thread \<Rightarrow> Thread result" where
  "PopLocalReferences x saved_local_ref_cookie self =
     and_then (if env_check_jni self then CheckNoHeldMonitors x self else Inr self)
       (\<lambda>self1.
          (let self2 = SetLocalSegmentState (env_local_ref_cookie self1) self1
           in Inr (SetLocalRefCookie saved_local_ref_cookie self2)))"

text \<open>The fatal report carries the saved exception and the second one. When no exception was
  saved the source dereferences the null \<open>saved_exception\<close> while it builds the message;
  the report then carries \<open>0\<close> for it.\<close>

definition UnlockJniSynchronizedMethod :: "Ext \<Rightarrow> jobject \<Rightarrow> Thread \<Rightarrow> Thread result" where
  "UnlockJniSynchronizedMethod x locked self =
     (let saved_exception = (if IsExceptionPending self then GetException self else 0);
          self1 = (if IsExceptionPending self then ClearException self else self)
      in case DecodeJObject x locked self1 of
           (self2, obj) \<Rightarrow>
             (let self3 = MonitorExit x obj self2
              in if IsExceptionPending self3
                 then Inl (SecondException saved_exception (GetException self3), self3)
                 else if saved_exception \<noteq> 0
                 then Inr (SetException saved_exception self3)
                 else Inr self3))"

text \<open>The tracing code added to \<open>JniMethodEnd\<close> and to the reference result handler.\<close>

definition JniMethodEnd :: "Build \<Rightarrow> Ext \<Rightarrow> Runtime \<Rightarrow> 32 word \<Rightarrow> Thread \<Rightarrow> (Runtime \<times> Thread) result" where
  "JniMethodEnd b x rt saved_local_ref_cookie self =
     (let rt1 = (if isJNIMethodPrint rt
                 then (let methodname = PrettyMethod (top_quick_frame self);
                           rt0 = ALOGD (''[ROM] JniMethodEnd jni '' @ methodname) rt
                       in if strstr methodname (jniFuncName rt0)
                          then ALOGD (''[ROM] leave jni '' @ methodname) (rt0\<lparr>jniEnable := False\<rparr>)
                          else rt0)
                 else rt)
      in and_then (GoToRunnable b self)
           (\<lambda>self1. and_then (PopLocalReferences x saved_local_ref_cookie self1)
              (\<lambda>self2. Inr (rt1, self2))))"

definition JniMethodFastEnd :: "Build \<Rightarrow> Ext \<Rightarrow> 32 word \<Rightarrow> Thread \<Rightarrow> Thread result" where
  "JniMethodFastEnd b x saved_local_ref_cookie self =
     and_then (GoToRunnableFast b self) (PopLocalReferences x saved_local_ref_cookie)"

definition JniMethodEndSynchronized ::
    "Build \<Rightarrow> Ext \<Rightarrow> 32 word \<Rightarrow> jobject \<Rightarrow> Thread \<Rightarrow> Thread result" where
  "JniMethodEndSynchronized b x saved_local_ref_cookie locked self =
     and_then (GoToRunnable b self)
       (\<lambda>self1. and_then (UnlockJniSynchronizedMethod x locked self1)
          (PopLocalReferences x saved_local_ref_cookie))"

definition JniMethodEndWithReferenceHandleResult ::
    "Ext \<Rightarrow> Runtime \<Rightarrow> jobject \<Rightarrow> 32 word \<Rightarrow> Thread \<Rightarrow> (Runtime \<times> Thread \<times> objptr) result" where
  "JniMethodEndWithReferenceHandleResult x rt result saved_local_ref_cookie self =
     (let rt1 = (if isJNIMethodPrint rt
                 then (let methodname = PrettyMethod (top_quick_frame self)
                       in if strstr methodname (jniFuncName rt)
                          then ALOGD (''[ROM] leave jni '' @ methodname) (rt\<lparr>jniEnable := False\<rparr>)
                          else rt)
                 else rt)
      in case (if \<not> IsExceptionPending self then DecodeJObject x result self else (self, 0)) of
           (self1, obj) \<Rightarrow>
             and_then (PopLocalReferences x saved_local_ref_cookie self1)
               (\<lambda>self2. and_then (if env_check_jni self2 then CheckReferenceResult x obj self2
                                   else Inr self2)
                  (\<lambda>self3. and_then (VerifyObject x obj self3)
                     (\<lambda>self4. Inr (rt1, self4, obj)))))"

definition JniMethodFastEndWithReference ::
    "Build \<Rightarrow> Ext \<Rightarrow> Runtime \<Rightarrow> jobject \<Rightarrow> 32 word \<Rightarrow> Thread \<Rightarrow> (Runtime \<times> Thread \<times> objptr) result" where
  "JniMethodFastEndWithReference b x rt result saved_local_ref_cookie self =
     and_then (GoToRunnableFast b self)
       (JniMethodEndWithReferenceHandleResult x rt result saved_local_ref_cookie)"

definition JniMethodEndWithReference ::
    "Build \<Rightarrow> Ext \<Rightarrow> Runtime \<Rightarrow> jobject \<Rightarrow> 32 word \<Rightarrow> Thread \<Rightarrow> (Runtime \<times> Thread \<times> objptr) result" where
  "JniMethodEndWithReference b x rt result saved_local_ref_cookie self =
     and_then (GoToRunnable b self)
       (JniMethodEndWithReferenceHandleResult x rt result saved_local_ref_cookie)"

definition JniMethodEndWithReferenceSynchronized ::
    "Build \<Rightarrow> Ext \<Rightarrow> Runtime \<Rightarrow> jobject \<Rightarrow> 32 word \<Rightarrow> jobject \<Rightarrow> Thread
       \<Rightarrow> (Runtime \<times> Thread \<times> objptr) result" where
  "JniMethodEndWithReferenceSynchronized b x rt result saved_local_ref_cookie locked self =
     and_then (GoToRunnable b self)
       (\<lambda>self1. and_then (UnlockJniSynchronizedMethod x locked self1)
          (JniMethodEndWithReferenceHandleResult x rt result saved_local_ref_cookie))"

text \<open>\<open>called->GetShorty()[0]\<close>; the shorty is a C string, whose first character is the
  terminating NUL when it is empty.\<close>

definition return_shorty :: "ArtMethod \<Rightarrow> char" where
  "return_shorty called = (case GetShorty called of [] \<Rightarrow> CHR 0x00 | ch # _ \<Rightarrow> ch)"

text \<open>The \<open>switch\<close> on the return shorty of a method that does not return a reference;
  \<open>None\<close> is its \<open>default\<close> case, which is fatal. The members of the union are
  converted to \<open>uint64_t\<close>: the signed ones (\<open>jbyte\<close>, \<open>jshort\<close>, \<open>jint\<close>,
  \<open>jlong\<close>) are sign-extended, the unsigned ones (\<open>jboolean\<close>, \<open>jchar\<close>) and
  the \<open>uint32_t\<close> of the float are zero-extended.\<close>

definition switch_return_shorty ::
    "Build \<Rightarrow> Ext \<Rightarrow> char \<Rightarrow> jvalue \<Rightarrow> 64 word \<Rightarrow> 64 word option" where
  "switch_return_shorty b x return_shorty_char result result_f =
     (if return_shorty_char = CHR ''F''
      then (if kRuntimeISA b = kX86
            then Some (ucast (ext_static_cast_float x result_f))
            else Some result_f)
      else if return_shorty_char = CHR ''D'' then Some result_f
      else if return_shorty_char = CHR ''Z'' then Some (ucast (jv_z result))
      else if return_shorty_char = CHR ''B'' then Some (scast (jv_b result))
      else if return_shorty_char = CHR ''C'' then Some (ucast (jv_c result))
      else if return_shorty_char = CHR ''S'' then Some (scast (jv_s result))
      else if return_shorty_char = CHR ''I'' then Some (scast (jv_i result))
      else if return_shorty_char = CHR ''J'' then Some (jv_j result)
      else if return_shorty_char = CHR ''V'' then Some 0
      else None)"

definition GenericJniMethodEnd ::
    "Build \<Rightarrow> Ext \<Rightarrow> Runtime \<Rightarrow> Thread \<Rightarrow> 32 word \<Rightarrow> jvalue \<Rightarrow> 64 word \<Rightarrow> ArtMethod
       \<Rightarrow> (Runtime \<times> Thread \<times> 64 word) result" where
  "GenericJniMethodEnd b x rt self saved_local_ref_cookie result result_f called =
     (let critical_native = IsCriticalNative called;
          fast_native = IsFastNative called;
          normal_native = (\<not> critical_native \<and> \<not> fast_native)
      in and_then
           (if normal_native
            then GoToRunnable b (MONITOR_JNI EvPaletteNotifyEndJniInvocation x self)
            else if fast_native then GoToRunnableFast b self
            else Inr self)
           (\<lambda>self1. and_then
              (if IsSynchronized called
               then (if kIsDebugBuild b \<and> \<not> normal_native
                     then Inl (CheckFailed
                            ''@FastNative/@CriticalNative and synchronize is not supported'', self1)
                     else
                       (let lock = ext_GetGenericJniSynchronizationObject x called
                        in if kIsDebugBuild b \<and> lock = 0
                           then Inl (CheckFailed ''lock != nullptr'', self1)
                           else UnlockJniSynchronizedMethod x lock self1))
               else Inr self1)
              (\<lambda>self2.
                 (let return_shorty_char = return_shorty called
                  in if return_shorty_char = CHR ''L''
                     then JniMethodEndWithReferenceHandleResult x rt (jv_l result)
                            saved_local_ref_cookie self2
                     else and_then
                            (if \<not> critical_native
                             then PopLocalReferences x saved_local_ref_cookie self2
                             else Inr self2)
                            (\<lambda>self3.
                               case switch_return_shorty b x return_shorty_char result result_f of
                                 Some v \<Rightarrow> Inr (rt, self3, v)
                               | None \<Rightarrow> Inl (UnexpectedShorty return_shorty_char, self3))))))"

definition JniMonitoredMethodStart ::
    "Build \<Rightarrow> Ext \<Rightarrow> Runtime \<Rightarrow> Thread \<Rightarrow> (Runtime \<times> Thread \<times> 32 word) result" where
  "JniMonitoredMethodStart b x rt self =
     and_then (JniMethodStart b rt self)
       (\<lambda>(rt1, self1, result).
          Inr (rt1, MONITOR_JNI EvPaletteNotifyBeginJniInvocation x self1, result))"

definition JniMonitoredMethodStartSynchronized ::
    "Build \<Rightarrow> Ext \<Rightarrow> Runtime \<Rightarrow> jobject \<Rightarrow> Thread \<Rightarrow> (Runtime \<times> Thread \<times> 32 word) result" where
  "JniMonitoredMethodStartSynchronized b x rt to_lock self =
     and_then (JniMethodStartSynchronized b x rt to_lock self)
       (\<lambda>(rt1, self1, result).
          Inr (rt1, MONITOR_JNI EvPaletteNotifyBeginJniInvocation x self1, result))"

definition JniMonitoredMethodEnd ::
    "Build \<Rightarrow> Ext \<Rightarrow> Runtime \<Rightarrow> 32 word \<Rightarrow> Thread \<Rightarrow> (Runtime \<times> Thread) result" where
  "JniMonitoredMethodEnd b x rt saved_local_ref_cookie self =
     JniMethodEnd b x rt saved_local_ref_cookie
       (MONITOR_JNI EvPaletteNotifyEndJniInvocation x self)"

definition JniMonitoredMethodEndSynchronized ::
    "Build \<Rightarrow> Ext \<Rightarrow> 32 word \<Rightarrow> jobject \<Rightarrow> Thread \<Rightarrow> Thread result" where
  "JniMonitoredMethodEndSynchronized b x saved_local_ref_cookie locked self =
     JniMethodEndSynchronized b x saved_local_ref_cookie locked
       (MONITOR_JNI EvPaletteNotifyEndJniInvocation x self)"

definition JniMonitoredMethodEndWithReference ::
    "Build \<Rightarrow> Ext \<Rightarrow> Runtime \<Rightarrow> jobject \<Rightarrow> 32 word \<Rightarrow> Thread \<Rightarrow> (Runtime \<times> Thread \<times> objptr) result" where
  "JniMonitoredMethodEndWithReference b x rt result saved_local_ref_cookie self =
     JniMethodEndWithReference b x rt result saved_local_ref_cookie
       (MONITOR_JNI EvPaletteNotifyEndJniInvocation x self)"

definition JniMonitoredMethodEndWithReferenceSynchronized ::
    "Build \<Rightarrow> Ext \<Rightarrow> Runtime \<Rightarrow> jobject \<Rightarrow> 32 word \<Rightarrow> jobject \<Rightarrow> Thread
       \<Rightarrow> (Runtime \<times> Thread \<times> objptr) result" where
  "JniMonitoredMethodEndWithReferenceSynchronized b x rt result saved_local_ref_cookie locked self =
     JniMethodEndWithReferenceSynchronized b x rt result saved_local_ref_cookie locked
       (MONITOR_JNI EvPaletteNotifyEndJniInvocation x self)"

subsection \<open>Vocabulary of the properties\<close>

text \<open>The calls made between two points of a run, oldest first.\<close>

definition calls_since :: "Thread \<Rightarrow> Thread \<Rightarrow> event list" where
  "calls_since s s' = map fst (drop (length (trace s)) (trace s'))"

text \<open>The states the thread was in at those calls.\<close>

definition states_since :: "Thread \<Rightarrow> Thread \<Rightarrow> ThreadState list" where
  "states_since s s' = map snd (drop (length (trace s)) (trace s'))"

text \<open>The steps of the epilogue that depend on the calling mode, and the monitor release.\<close>

fun is_protocol_step :: "event \<Rightarrow> bool" where
  "is_protocol_step EvPaletteNotifyEndJniInvocation = True"
| "is_protocol_step EvTransitionFromSuspendedToRunnable = True"
| "is_protocol_step EvTestAllFlags = True"
| "is_protocol_step EvCheckSuspend = True"
| "is_protocol_step (EvMonitorExit obj) = True"
| "is_protocol_step e = False"

definition mode_steps :: "Ext \<Rightarrow> ArtMethod \<Rightarrow> Thread \<Rightarrow> event list" where
  "mode_steps x called self =
     (if \<not> IsCriticalNative called \<and> \<not> IsFastNative called
      then (if ext_PaletteShouldReportJniInvocations x then [EvPaletteNotifyEndJniInvocation]
            else [])
           @ [EvTransitionFromSuspendedToRunnable]
      else if IsFastNative called
      then EvTestAllFlags # (if thr_flags self \<noteq> 0 then [EvCheckSuspend] else [])
      else [])"

text \<open>The calls of a monitor release that returns, given the exception that was pending.\<close>

definition unlock_calls :: "Ext \<Rightarrow> jobject \<Rightarrow> objptr \<Rightarrow> event list" where
  "unlock_calls x locked e1 =
     (if e1 \<noteq> 0 then [EvClearException] else [])
     @ [EvDecodeJObject locked, EvMonitorExit (ext_DecodeJObject x locked)]
     @ (if e1 \<noteq> 0 then [EvSetException e1] else [])"

text \<open>The calls of a pop of the local reference scope, of the handling of a reference
  result, and of \<open>GenericJniMethodEnd\<close> after its mode-dependent steps.\<close>

definition pop_calls :: "bool \<Rightarrow> IRTSegmentState \<Rightarrow> 32 word \<Rightarrow> event list" where
  "pop_calls check_jni cookie saved =
     (if check_jni then [EvCheckNoHeldMonitors] else [])
     @ [EvSetLocalSegmentState cookie, EvSetLocalRefCookie saved]"

definition handle_result_calls ::
    "Ext \<Rightarrow> bool \<Rightarrow> objptr \<Rightarrow> jobject \<Rightarrow> IRTSegmentState \<Rightarrow> 32 word \<Rightarrow> event list" where
  "handle_result_calls x check_jni e1 result cookie saved =
     (let obj = (if e1 \<noteq> 0 then 0 else ext_DecodeJObject x result)
      in (if e1 \<noteq> 0 then [] else [EvDecodeJObject result])
         @ pop_calls check_jni cookie saved
         @ (if check_jni then [EvCheckReferenceResult obj] else [])
         @ [EvVerifyObject obj])"

definition generic_end_calls ::
    "Ext \<Rightarrow> ArtMethod \<Rightarrow> Thread \<Rightarrow> jobject \<Rightarrow> 32 word \<Rightarrow> event list" where
  "generic_end_calls x called self result saved =
     (if IsSynchronized called
      then unlock_calls x (ext_GetGenericJniSynchronizationObject x called) (thr_exception self)
      else [])
     @ (if return_shorty called = CHR ''L''
        then handle_result_calls x (env_check_jni self) (thr_exception self) result
               (env_local_ref_cookie self) saved
        else if \<not> IsCriticalNative called
        then pop_calls (env_check_jni self) (env_local_ref_cookie self) saved
        else [])"

text \<open>A pop of the local reference scope is the one place that sets the segment state; the
  two transitions are the calls that change the thread's state.\<close>

fun is_pop :: "event \<Rightarrow> bool" where
  "is_pop (EvSetLocalSegmentState v) = True"
| "is_pop e = False"

fun is_transition :: "event \<Rightarrow> bool" where
  "is_transition (EvTransitionFromRunnableToSuspended st) = True"
| "is_transition EvTransitionFromSuspendedToRunnable = True"
| "is_transition e = False"

fun is_decode :: "event \<Rightarrow> bool" where
  "is_decode (EvDecodeJObject h) = True"
| "is_decode e = False"

fun is_check_suspend :: "event \<Rightarrow> bool" where
  "is_check_suspend EvCheckSuspend = True"
| "is_check_suspend e = False"

fun is_monitor_exit :: "event \<Rightarrow> bool" where
  "is_monitor_exit (EvMonitorExit obj) = True"
| "is_monitor_exit e = False"

text \<open>The reference scope and the execution state of a thread are those of another.\<close>

definition same_scope_and_state :: "Thread \<Rightarrow> Thread \<Rightarrow> bool" where
  "same_scope_and_state s s' =
     (env_locals_segment_state s' = env_locals_segment_state s
      \<and> env_local_ref_cookie s' = env_local_ref_cookie s
      \<and> thr_state s' = thr_state s)"

text \<open>A result without the runtime's tracing configuration and log.\<close>

definition drop_rt :: "(Runtime \<times> 'a) result \<Rightarrow> 'a result" where
  "drop_rt r = (case r of Inl e \<Rightarrow> Inl e | Inr (rt, v) \<Rightarrow> Inr v)"

subsection \<open>Concrete inputs\<close>

text \<open>\<open>static_cast<float>\<close> of a \<open>double\<close> on bit patterns, rounding to nearest, ties to
  even, as the conversion instruction of x86 does under the default rounding mode. It
  instantiates \<open>ext_static_cast_float\<close> in the examples.\<close>

definition round_nearest_even :: "nat \<Rightarrow> nat \<Rightarrow> nat" where
  "round_nearest_even m k =
     (let q = m div 2 ^ k; r = m mod 2 ^ k
      in if 2 ^ k < 2 * r \<or> (2 * r = 2 ^ k \<and> odd q) then q + 1 else q)"

definition ieee_double_to_float :: "64 word \<Rightarrow> 32 word" where
  "ieee_double_to_float d =
     (let sign = (if bit d 63 then 0x80000000 else 0);
          e = unat (drop_bit 52 d AND 0x7FF);
          f = unat (d AND 0xFFFFFFFFFFFFF);
          m = 2 ^ 52 + f
      in if e = 0x7FF
         then (if f = 0 then sign OR 0x7F800000
               else sign OR 0x7FC00000 OR word_of_nat (f div 2 ^ 29))
         else if e = 0 then sign
         else if 897 \<le> e
         then (let bits = (e - 897) * 2 ^ 23 + round_nearest_even m 29
               in if 0xFF * 2 ^ 23 \<le> bits then sign OR 0x7F800000
                  else sign OR word_of_nat bits)
         else sign OR word_of_nat (round_nearest_even m (29 + (897 - e))))"

definition ex_method :: "bool \<Rightarrow> bool \<Rightarrow> bool \<Rightarrow> string \<Rightarrow> ArtMethod" where
  "ex_method fast critical sync shorty =
     \<lparr>IsFastNative = fast, IsCriticalNative = critical, IsSynchronized = sync,
      GetShorty = shorty, PrettyMethod = ''int Foo.bar(int)''\<rparr>"

definition ex_thread :: "ThreadState \<Rightarrow> 16 word \<Rightarrow> objptr \<Rightarrow> ArtMethod \<Rightarrow> Thread" where
  "ex_thread st fl exc m =
     \<lparr>thr_state = st, thr_flags = fl, thr_exception = exc, env_local_ref_cookie = 3,
      env_locals_segment_state = 7, env_check_jni = False, top_quick_frame = m, trace = []\<rparr>"

definition ex_ext :: "bool \<Rightarrow> objptr \<Rightarrow> Ext" where
  "ex_ext report e2 =
     \<lparr>ext_DecodeJObject = (\<lambda>h. h + 0x1000), ext_MonitorExit_throws = (\<lambda>obj. e2),
      ext_CheckNoHeldMonitors_ok = True, ext_CheckReferenceResult_ok = (\<lambda>obj. True),
      ext_VerifyObject_ok = (\<lambda>obj. True), ext_PaletteShouldReportJniInvocations = report,
      ext_GetGenericJniSynchronizationObject = (\<lambda>m. 0x20),
      ext_GetMarkBit = (\<lambda>obj. if obj = 0x50 then 1 else 0),
      ext_BarrierForRoot = (\<lambda>r. r + 8), ext_static_cast_float = ieee_double_to_float\<rparr>"

definition ex_build :: "bool \<Rightarrow> bool \<Rightarrow> InstructionSet \<Rightarrow> Build" where
  "ex_build dbg baker isa =
     \<lparr>kIsDebugBuild = dbg, kUseReadBarrier = True, kUseBakerReadBarrier = baker,
      kRuntimeISA = isa\<rparr>"

definition ex_runtime :: "bool \<Rightarrow> Runtime" where
  "ex_runtime p = \<lparr>isJNIMethodPrint = p, jniFuncName = ''bar'', jniEnable = False, logcat = []\<rparr>"

definition ex_jvalue :: jvalue where
  "ex_jvalue =
     \<lparr>jv_z = 1, jv_b = 0xFF, jv_c = 0x41, jv_s = 0xFFFE, jv_i = 0xFFFFFFFD, jv_j = 5,
      jv_l = 0x44\<rparr>"

section \<open>Properties\<close>

subsection \<open>What a call that returns has done\<close>

lemmas runtime_call_defs =
  emit_def IsExceptionPending_def GetException_def ClearException_def SetException_def
  DecodeJObject_def MonitorEnter_def MonitorExit_def TransitionFromRunnableToSuspended_def
  TransitionFromSuspendedToRunnable_def TestAllFlags_def CheckSuspend_def IsSharedHeld_def
  SetLocalRefCookie_def SetLocalSegmentState_def CheckNoHeldMonitors_def
  CheckReferenceResult_def VerifyObject_def ALOGD_def MONITOR_JNI_def

lemmas entrypoint_defs =
  ReadBarrierJni_def JniMethodFastStart_def JniMethodStart_def JniMethodStartSynchronized_def
  GoToRunnable_def GoToRunnableFast_def PopLocalReferences_def UnlockJniSynchronizedMethod_def
  JniMethodEnd_def JniMethodFastEnd_def JniMethodEndSynchronized_def
  JniMethodEndWithReferenceHandleResult_def JniMethodFastEndWithReference_def
  JniMethodEndWithReference_def JniMethodEndWithReferenceSynchronized_def return_shorty_def
  switch_return_shorty_def GenericJniMethodEnd_def and_then_def

lemmas example_defs =
  ex_method_def ex_thread_def ex_ext_def ex_build_def ex_runtime_def ex_jvalue_def

lemma and_then_Inr: "and_then m f = Inr r \<longleftrightarrow> (\<exists>v. m = Inr v \<and> f v = Inr r)"
  by (cases m) (simp_all add: and_then_def)

lemma and_then_InrE:
  assumes "and_then m f = Inr r"
  obtains v where "m = Inr v" and "f v = Inr r"
  using assms by (auto simp: and_then_Inr)

lemma MONITOR_JNI_eq:
  "MONITOR_JNI kind x s =
     s\<lparr>trace := trace s
          @ (if ext_PaletteShouldReportJniInvocations x then [(kind, thr_state s)] else [])\<rparr>"
  by (cases s) (simp add: MONITOR_JNI_def emit_def)

lemma GoToRunnable_Inr:
  assumes "GoToRunnable b s = Inr s'"
  shows "s' = s\<lparr>thr_state := kRunnable,
                 trace := trace s @ [(EvTransitionFromSuspendedToRunnable, thr_state s)]\<rparr>"
  using assms
  by (cases s)
    (simp add: GoToRunnable_def TransitionFromSuspendedToRunnable_def emit_def split: if_splits)

lemma GoToRunnableFast_Inr:
  assumes "GoToRunnableFast b s = Inr s'"
  shows "s' = s\<lparr>trace := trace s @ (EvTestAllFlags, thr_state s) #
                     (if thr_flags s \<noteq> 0 then [(EvCheckSuspend, thr_state s)] else [])\<rparr>"
  using assms
  by (cases s)
    (simp add: GoToRunnableFast_def TestAllFlags_def CheckSuspend_def emit_def split: if_splits)

lemma PopLocalReferences_Inr:
  assumes "PopLocalReferences x c s = Inr s'"
  shows "s' = s\<lparr>env_local_ref_cookie := c,
                 env_locals_segment_state := env_local_ref_cookie s,
                 trace := trace s
                    @ (if env_check_jni s then [(EvCheckNoHeldMonitors, thr_state s)] else [])
                    @ [(EvSetLocalSegmentState (env_local_ref_cookie s), thr_state s),
                       (EvSetLocalRefCookie c, thr_state s)]\<rparr>"
  using assms
  by (cases s)
    (simp add: PopLocalReferences_def and_then_def CheckNoHeldMonitors_def
      SetLocalSegmentState_def SetLocalRefCookie_def emit_def Let_def split: if_splits)

lemma UnlockJniSynchronizedMethod_Inr:
  assumes "UnlockJniSynchronizedMethod x locked s = Inr s'"
  shows "s' = s\<lparr>trace := trace s
            @ map (\<lambda>e. (e, thr_state s)) (unlock_calls x locked (thr_exception s))\<rparr>"
    and "ext_MonitorExit_throws x (ext_DecodeJObject x locked) = 0"
  using assms
  by (cases s; simp add: UnlockJniSynchronizedMethod_def IsExceptionPending_def GetException_def
      ClearException_def SetException_def DecodeJObject_def MonitorExit_def emit_def
      unlock_calls_def Let_def split: if_splits)+

lemma HandleResult_Inr:
  assumes "JniMethodEndWithReferenceHandleResult x rt result c s = Inr (rt', s', obj)"
  shows "obj = (if thr_exception s \<noteq> 0 then 0 else ext_DecodeJObject x result)"
    and "s' = s\<lparr>env_local_ref_cookie := c,
                 env_locals_segment_state := env_local_ref_cookie s,
                 trace := trace s @ map (\<lambda>e. (e, thr_state s))
                   ((if thr_exception s \<noteq> 0 then [] else [EvDecodeJObject result])
                    @ (if env_check_jni s then [EvCheckNoHeldMonitors] else [])
                    @ [EvSetLocalSegmentState (env_local_ref_cookie s), EvSetLocalRefCookie c]
                    @ (if env_check_jni s then [EvCheckReferenceResult obj] else [])
                    @ [EvVerifyObject obj])\<rparr>"
  using assms
  by (cases s; simp add: JniMethodEndWithReferenceHandleResult_def IsExceptionPending_def
      DecodeJObject_def PopLocalReferences_def and_then_def CheckNoHeldMonitors_def
      CheckReferenceResult_def VerifyObject_def
      SetLocalSegmentState_def SetLocalRefCookie_def emit_def Let_def split: if_splits)+

text \<open>The three phases of \<open>GenericJniMethodEnd\<close>: the step chosen by the calling mode,
  the monitor release of a synchronized method, and the handling of the result.\<close>

lemma GenericJniMethodEnd_phases:
  assumes "GenericJniMethodEnd b x rt self c result result_f called = Inr (rt', s', v)"
  shows "\<exists>s1 s2.
    (if \<not> IsCriticalNative called \<and> \<not> IsFastNative called
     then GoToRunnable b (MONITOR_JNI EvPaletteNotifyEndJniInvocation x self)
     else if IsFastNative called then GoToRunnableFast b self else Inr self) = Inr s1
    \<and> (if IsSynchronized called
     then UnlockJniSynchronizedMethod x (ext_GetGenericJniSynchronizationObject x called) s1
     else Inr s1) = Inr s2
    \<and> (if return_shorty called = CHR ''L''
     then JniMethodEndWithReferenceHandleResult x rt (jv_l result) c s2 = Inr (rt', s', v)
     else (if \<not> IsCriticalNative called then PopLocalReferences x c s2 else Inr s2) = Inr s'
          \<and> rt' = rt
          \<and> switch_return_shorty b x (return_shorty called) result result_f = Some v)"
proof -
  from assms obtain s1 s2 where
    p1: "(if \<not> IsCriticalNative called \<and> \<not> IsFastNative called
          then GoToRunnable b (MONITOR_JNI EvPaletteNotifyEndJniInvocation x self)
          else if IsFastNative called then GoToRunnableFast b self else Inr self) = Inr s1"
    and p2: "(if IsSynchronized called
              then (if kIsDebugBuild b
                       \<and> \<not> (\<not> IsCriticalNative called \<and> \<not> IsFastNative called)
                    then Inl (CheckFailed
                           ''@FastNative/@CriticalNative and synchronize is not supported'', s1)
                    else
                      (if kIsDebugBuild b
                          \<and> ext_GetGenericJniSynchronizationObject x called = 0
                       then Inl (CheckFailed ''lock != nullptr'', s1)
                       else UnlockJniSynchronizedMethod x
                              (ext_GetGenericJniSynchronizationObject x called) s1))
              else Inr s1) = Inr s2"
    and p3: "(if return_shorty called = CHR ''L''
              then JniMethodEndWithReferenceHandleResult x rt (jv_l result) c s2
              else and_then
                     (if \<not> IsCriticalNative called then PopLocalReferences x c s2 else Inr s2)
                     (\<lambda>self3.
                        case switch_return_shorty b x (return_shorty called) result result_f of
                          Some v \<Rightarrow> Inr (rt, self3, v)
                        | None \<Rightarrow> Inl (UnexpectedShorty (return_shorty called), self3)))
             = Inr (rt', s', v)"
    unfolding GenericJniMethodEnd_def Let_def
    by (elim and_then_InrE) blast
  from p2 have q2: "(if IsSynchronized called
     then UnlockJniSynchronizedMethod x (ext_GetGenericJniSynchronizationObject x called) s1
     else Inr s1) = Inr s2"
    by (simp split: if_splits)
  from p3 have q3: "if return_shorty called = CHR ''L''
     then JniMethodEndWithReferenceHandleResult x rt (jv_l result) c s2 = Inr (rt', s', v)
     else (if \<not> IsCriticalNative called then PopLocalReferences x c s2 else Inr s2) = Inr s'
          \<and> rt' = rt
          \<and> switch_return_shorty b x (return_shorty called) result result_f = Some v"
    by (cases "return_shorty called = CHR ''L''")
      (auto elim!: and_then_InrE split: option.splits)
  from p1 q2 q3 show ?thesis by blast
qed

lemma PopLocalReferences_Inr':
  assumes "PopLocalReferences x c s = Inr s'"
  shows "s' = s\<lparr>env_local_ref_cookie := c,
                 env_locals_segment_state := env_local_ref_cookie s,
                 trace := trace s @ map (\<lambda>e. (e, thr_state s))
                    (pop_calls (env_check_jni s) (env_local_ref_cookie s) c)\<rparr>"
  using PopLocalReferences_Inr [OF assms] by (simp add: pop_calls_def)

lemma HandleResult_Inr':
  assumes "JniMethodEndWithReferenceHandleResult x rt result c s = Inr (rt', s', obj)"
  shows "s' = s\<lparr>env_local_ref_cookie := c,
                 env_locals_segment_state := env_local_ref_cookie s,
                 trace := trace s @ map (\<lambda>e. (e, thr_state s))
                   (handle_result_calls x (env_check_jni s) (thr_exception s) result
                      (env_local_ref_cookie s) c)\<rparr>"
  using HandleResult_Inr [OF assms] by (simp add: handle_result_calls_def pop_calls_def Let_def)

lemma JniMethodEnd_Inr:
  assumes "JniMethodEnd b x rt c s = Inr (rt', s')"
  shows "s' = s\<lparr>thr_state := kRunnable, env_local_ref_cookie := c,
                 env_locals_segment_state := env_local_ref_cookie s,
                 trace := trace s @ (EvTransitionFromSuspendedToRunnable, thr_state s)
                   # map (\<lambda>e. (e, kRunnable)) (pop_calls (env_check_jni s) (env_local_ref_cookie s) c)\<rparr>"
proof -
  from assms obtain s1 where g: "GoToRunnable b s = Inr s1"
    and p: "PopLocalReferences x c s1 = Inr s'"
    unfolding JniMethodEnd_def Let_def by (auto elim!: and_then_InrE)
  show ?thesis
    unfolding PopLocalReferences_Inr' [OF p] GoToRunnable_Inr [OF g] by simp
qed

lemma JniMethodFastEnd_Inr:
  assumes "JniMethodFastEnd b x c s = Inr s'"
  shows "s' = s\<lparr>env_local_ref_cookie := c,
                 env_locals_segment_state := env_local_ref_cookie s,
                 trace := trace s @ map (\<lambda>e. (e, thr_state s))
                   (EvTestAllFlags # (if thr_flags s \<noteq> 0 then [EvCheckSuspend] else [])
                    @ pop_calls (env_check_jni s) (env_local_ref_cookie s) c)\<rparr>"
proof -
  from assms obtain s1 where g: "GoToRunnableFast b s = Inr s1"
    and p: "PopLocalReferences x c s1 = Inr s'"
    unfolding JniMethodFastEnd_def by (auto elim!: and_then_InrE)
  show ?thesis
    unfolding PopLocalReferences_Inr' [OF p] GoToRunnableFast_Inr [OF g] by simp
qed

lemma JniMethodEndSynchronized_Inr:
  assumes "JniMethodEndSynchronized b x c locked s = Inr s'"
  shows "s' = s\<lparr>thr_state := kRunnable, env_local_ref_cookie := c,
                 env_locals_segment_state := env_local_ref_cookie s,
                 trace := trace s @ (EvTransitionFromSuspendedToRunnable, thr_state s)
                   # map (\<lambda>e. (e, kRunnable))
                       (unlock_calls x locked (thr_exception s)
                        @ pop_calls (env_check_jni s) (env_local_ref_cookie s) c)\<rparr>"
proof -
  from assms obtain s1 s2 where g: "GoToRunnable b s = Inr s1"
    and u: "UnlockJniSynchronizedMethod x locked s1 = Inr s2"
    and p: "PopLocalReferences x c s2 = Inr s'"
    unfolding JniMethodEndSynchronized_def by (auto elim!: and_then_InrE)
  show ?thesis
    unfolding PopLocalReferences_Inr' [OF p] UnlockJniSynchronizedMethod_Inr(1) [OF u]
      GoToRunnable_Inr [OF g] by simp
qed

lemma JniMethodEndWithReference_Inr:
  assumes "JniMethodEndWithReference b x rt result c s = Inr (rt', s', obj)"
  shows "s' = s\<lparr>thr_state := kRunnable, env_local_ref_cookie := c,
                 env_locals_segment_state := env_local_ref_cookie s,
                 trace := trace s @ (EvTransitionFromSuspendedToRunnable, thr_state s)
                   # map (\<lambda>e. (e, kRunnable))
                       (handle_result_calls x (env_check_jni s) (thr_exception s) result
                          (env_local_ref_cookie s) c)\<rparr>"
    and "obj = (if thr_exception s \<noteq> 0 then 0 else ext_DecodeJObject x result)"
proof -
  from assms obtain s1 where g: "GoToRunnable b s = Inr s1"
    and h: "JniMethodEndWithReferenceHandleResult x rt result c s1 = Inr (rt', s', obj)"
    unfolding JniMethodEndWithReference_def by (auto elim!: and_then_InrE)
  show "s' = s\<lparr>thr_state := kRunnable, env_local_ref_cookie := c,
                 env_locals_segment_state := env_local_ref_cookie s,
                 trace := trace s @ (EvTransitionFromSuspendedToRunnable, thr_state s)
                   # map (\<lambda>e. (e, kRunnable))
                       (handle_result_calls x (env_check_jni s) (thr_exception s) result
                          (env_local_ref_cookie s) c)\<rparr>"
    unfolding HandleResult_Inr' [OF h] GoToRunnable_Inr [OF g] by simp
  show "obj = (if thr_exception s \<noteq> 0 then 0 else ext_DecodeJObject x result)"
    unfolding HandleResult_Inr(1) [OF h] GoToRunnable_Inr [OF g] by simp
qed

lemma JniMethodFastEndWithReference_Inr:
  assumes "JniMethodFastEndWithReference b x rt result c s = Inr (rt', s', obj)"
  shows "s' = s\<lparr>env_local_ref_cookie := c,
                 env_locals_segment_state := env_local_ref_cookie s,
                 trace := trace s @ map (\<lambda>e. (e, thr_state s))
                   (EvTestAllFlags # (if thr_flags s \<noteq> 0 then [EvCheckSuspend] else [])
                    @ handle_result_calls x (env_check_jni s) (thr_exception s) result
                          (env_local_ref_cookie s) c)\<rparr>"
    and "obj = (if thr_exception s \<noteq> 0 then 0 else ext_DecodeJObject x result)"
proof -
  from assms obtain s1 where g: "GoToRunnableFast b s = Inr s1"
    and h: "JniMethodEndWithReferenceHandleResult x rt result c s1 = Inr (rt', s', obj)"
    unfolding JniMethodFastEndWithReference_def by (auto elim!: and_then_InrE)
  show "s' = s\<lparr>env_local_ref_cookie := c,
                 env_locals_segment_state := env_local_ref_cookie s,
                 trace := trace s @ map (\<lambda>e. (e, thr_state s))
                   (EvTestAllFlags # (if thr_flags s \<noteq> 0 then [EvCheckSuspend] else [])
                    @ handle_result_calls x (env_check_jni s) (thr_exception s) result
                          (env_local_ref_cookie s) c)\<rparr>"
    unfolding HandleResult_Inr' [OF h] GoToRunnableFast_Inr [OF g] by simp
  show "obj = (if thr_exception s \<noteq> 0 then 0 else ext_DecodeJObject x result)"
    unfolding HandleResult_Inr(1) [OF h] GoToRunnableFast_Inr [OF g] by simp
qed

lemma JniMethodEndWithReferenceSynchronized_Inr:
  assumes "JniMethodEndWithReferenceSynchronized b x rt result c locked s = Inr (rt', s', obj)"
  shows "s' = s\<lparr>thr_state := kRunnable, env_local_ref_cookie := c,
                 env_locals_segment_state := env_local_ref_cookie s,
                 trace := trace s @ (EvTransitionFromSuspendedToRunnable, thr_state s)
                   # map (\<lambda>e. (e, kRunnable))
                       (unlock_calls x locked (thr_exception s)
                        @ handle_result_calls x (env_check_jni s) (thr_exception s) result
                          (env_local_ref_cookie s) c)\<rparr>"
    and "obj = (if thr_exception s \<noteq> 0 then 0 else ext_DecodeJObject x result)"
proof -
  from assms obtain s1 s2 where g: "GoToRunnable b s = Inr s1"
    and u: "UnlockJniSynchronizedMethod x locked s1 = Inr s2"
    and h: "JniMethodEndWithReferenceHandleResult x rt result c s2 = Inr (rt', s', obj)"
    unfolding JniMethodEndWithReferenceSynchronized_def by (auto elim!: and_then_InrE)
  show "s' = s\<lparr>thr_state := kRunnable, env_local_ref_cookie := c,
                 env_locals_segment_state := env_local_ref_cookie s,
                 trace := trace s @ (EvTransitionFromSuspendedToRunnable, thr_state s)
                   # map (\<lambda>e. (e, kRunnable))
                       (unlock_calls x locked (thr_exception s)
                        @ handle_result_calls x (env_check_jni s) (thr_exception s) result
                          (env_local_ref_cookie s) c)\<rparr>"
    unfolding HandleResult_Inr' [OF h] UnlockJniSynchronizedMethod_Inr(1) [OF u]
      GoToRunnable_Inr [OF g] by simp
  show "obj = (if thr_exception s \<noteq> 0 then 0 else ext_DecodeJObject x result)"
    unfolding HandleResult_Inr(1) [OF h] UnlockJniSynchronizedMethod_Inr(1) [OF u]
      GoToRunnable_Inr [OF g] by simp
qed

lemma GenericJniMethodEnd_Inr:
  assumes "GenericJniMethodEnd b x rt self c result result_f called = Inr (rt', s', v)"
  defines "normal \<equiv> \<not> IsCriticalNative called \<and> \<not> IsFastNative called"
  defines "popped \<equiv> return_shorty called = CHR ''L'' \<or> \<not> IsCriticalNative called"
  defines "st \<equiv> (if normal then kRunnable else thr_state self)"
  shows "s' = self\<lparr>thr_state := st,
            env_local_ref_cookie := (if popped then c else env_local_ref_cookie self),
            env_locals_segment_state :=
              (if popped then env_local_ref_cookie self else env_locals_segment_state self),
            trace := trace self
              @ map (\<lambda>e. (e, thr_state self)) (mode_steps x called self)
              @ map (\<lambda>e. (e, st)) (generic_end_calls x called self (jv_l result) c)\<rparr>"
proof -
  from GenericJniMethodEnd_phases [OF assms(1)] obtain s1 s2 where
    p1: "(if \<not> IsCriticalNative called \<and> \<not> IsFastNative called
          then GoToRunnable b (MONITOR_JNI EvPaletteNotifyEndJniInvocation x self)
          else if IsFastNative called then GoToRunnableFast b self else Inr self) = Inr s1"
    and p2: "(if IsSynchronized called
              then UnlockJniSynchronizedMethod x
                     (ext_GetGenericJniSynchronizationObject x called) s1
              else Inr s1) = Inr s2"
    and p3: "if return_shorty called = CHR ''L''
             then JniMethodEndWithReferenceHandleResult x rt (jv_l result) c s2
                    = Inr (rt', s', v)
             else (if \<not> IsCriticalNative called then PopLocalReferences x c s2 else Inr s2)
                    = Inr s'
                  \<and> rt' = rt
                  \<and> switch_return_shorty b x (return_shorty called) result result_f = Some v"
    by blast
  have a: "s1 = self\<lparr>thr_state := st,
      trace := trace self @ map (\<lambda>e. (e, thr_state self)) (mode_steps x called self)\<rparr>"
    using p1 unfolding st_def normal_def
    by (cases self)
      (auto simp: mode_steps_def MONITOR_JNI_eq split: if_splits
        dest!: GoToRunnable_Inr GoToRunnableFast_Inr)
  have b: "s2 = s1\<lparr>trace := trace s1 @ map (\<lambda>e. (e, thr_state s1))
      (if IsSynchronized called
       then unlock_calls x (ext_GetGenericJniSynchronizationObject x called) (thr_exception s1)
       else [])\<rparr>"
    using p2 by (cases s1) (auto split: if_splits dest!: UnlockJniSynchronizedMethod_Inr(1))
  have c: "s' = s2\<lparr>
      env_local_ref_cookie := (if popped then c else env_local_ref_cookie s2),
      env_locals_segment_state :=
        (if popped then env_local_ref_cookie s2 else env_locals_segment_state s2),
      trace := trace s2 @ map (\<lambda>e. (e, thr_state s2))
        (if return_shorty called = CHR ''L''
         then handle_result_calls x (env_check_jni s2) (thr_exception s2) (jv_l result)
                (env_local_ref_cookie s2) c
         else if \<not> IsCriticalNative called
         then pop_calls (env_check_jni s2) (env_local_ref_cookie s2) c
         else [])\<rparr>"
    using p3 unfolding popped_def
    by (cases s2) (auto split: if_splits dest!: HandleResult_Inr' PopLocalReferences_Inr')
  show ?thesis
    unfolding c b a by (cases self) (simp add: generic_end_calls_def)
qed

lemma GenericJniMethodEnd_value:
  assumes "GenericJniMethodEnd b x rt self c result result_f called = Inr (rt', s', v)"
  shows "if return_shorty called = CHR ''L''
         then v = (if thr_exception self \<noteq> 0 then 0 else ext_DecodeJObject x (jv_l result))
         else switch_return_shorty b x (return_shorty called) result result_f = Some v"
proof -
  from GenericJniMethodEnd_phases [OF assms(1)] obtain s1 s2 where
    p1: "(if \<not> IsCriticalNative called \<and> \<not> IsFastNative called
          then GoToRunnable b (MONITOR_JNI EvPaletteNotifyEndJniInvocation x self)
          else if IsFastNative called then GoToRunnableFast b self else Inr self) = Inr s1"
    and p2: "(if IsSynchronized called
              then UnlockJniSynchronizedMethod x
                     (ext_GetGenericJniSynchronizationObject x called) s1
              else Inr s1) = Inr s2"
    and p3: "if return_shorty called = CHR ''L''
             then JniMethodEndWithReferenceHandleResult x rt (jv_l result) c s2
                    = Inr (rt', s', v)
             else (if \<not> IsCriticalNative called then PopLocalReferences x c s2 else Inr s2)
                    = Inr s'
                  \<and> rt' = rt
                  \<and> switch_return_shorty b x (return_shorty called) result result_f = Some v"
    by blast
  have a: "thr_exception s1 = thr_exception self"
    using p1
    by (auto simp: MONITOR_JNI_eq split: if_splits dest!: GoToRunnable_Inr GoToRunnableFast_Inr)
  have b: "thr_exception s2 = thr_exception s1"
    using p2 by (auto split: if_splits dest!: UnlockJniSynchronizedMethod_Inr(1))
  show ?thesis
    using p3 a b by (auto split: if_splits dest!: HandleResult_Inr(1))
qed

lemma UnlockJniSynchronizedMethod_eq:
  "UnlockJniSynchronizedMethod x locked self =
     (let obj = ext_DecodeJObject x locked;
          e1 = thr_exception self;
          e2 = ext_MonitorExit_throws x obj
      in if e2 \<noteq> 0
         then Inl (SecondException e1 e2,
                   self\<lparr>thr_exception := e2,
                        trace := trace self @ map (\<lambda>e. (e, thr_state self))
                          ((if e1 \<noteq> 0 then [EvClearException] else [])
                           @ [EvDecodeJObject locked, EvMonitorExit obj])\<rparr>)
         else Inr (self\<lparr>trace := trace self
                     @ map (\<lambda>e. (e, thr_state self)) (unlock_calls x locked e1)\<rparr>))"
  by (cases self)
    (simp add: UnlockJniSynchronizedMethod_def IsExceptionPending_def GetException_def
      ClearException_def SetException_def DecodeJObject_def MonitorExit_def emit_def
      unlock_calls_def Let_def)

lemma monitor_exits_unlock:
  "filter is_monitor_exit (unlock_calls x locked e1) = [EvMonitorExit (ext_DecodeJObject x locked)]"
  by (simp add: unlock_calls_def)

lemma monitor_exits_pop: "filter is_monitor_exit (pop_calls chk cookie saved) = []"
  by (simp add: pop_calls_def)

lemma monitor_exits_handle:
  "filter is_monitor_exit (handle_result_calls x chk e1 result cookie saved) = []"
  by (simp add: handle_result_calls_def pop_calls_def Let_def)

lemma monitor_exits_mode: "filter is_monitor_exit (mode_steps x called self) = []"
  by (simp add: mode_steps_def)

lemma decodes_pop: "filter is_decode (pop_calls chk cookie saved) = []"
  by (simp add: pop_calls_def)

lemma decodes_handle:
  "filter is_decode (handle_result_calls x chk e1 result cookie saved)
     = (if e1 \<noteq> 0 then [] else [EvDecodeJObject result])"
  by (simp add: handle_result_calls_def pop_calls_def Let_def)

lemma JniMethodFastStart_Inr:
  assumes "JniMethodFastStart b s = Inr (s', c)"
  shows "s' = s\<lparr>env_local_ref_cookie := env_locals_segment_state s,
                 trace := trace s @ [(EvSetLocalRefCookie (env_locals_segment_state s), thr_state s)]\<rparr>"
    and "c = env_local_ref_cookie s"
  using assms
  by (cases s; simp add: JniMethodFastStart_def SetLocalRefCookie_def emit_def Let_def
      split: if_splits)+

lemma JniMethodStart_Inr:
  assumes "JniMethodStart b rt s = Inr (rt', s', c)"
  shows "s' = s\<lparr>thr_state := kNative, env_local_ref_cookie := env_locals_segment_state s,
                 trace := trace s @ [(EvSetLocalRefCookie (env_locals_segment_state s), thr_state s),
                                     (EvTransitionFromRunnableToSuspended kNative, thr_state s)]\<rparr>"
    and "c = env_local_ref_cookie s"
  using assms
  by (cases s; simp add: JniMethodStart_def SetLocalRefCookie_def emit_def Let_def
      TransitionFromRunnableToSuspended_def split: if_splits)+

lemma JniMethodStartSynchronized_Inr:
  assumes "JniMethodStartSynchronized b x rt to_lock s = Inr (rt', s', c)"
  shows "s' = s\<lparr>thr_state := kNative, env_local_ref_cookie := env_locals_segment_state s,
                 trace := trace s @ [(EvDecodeJObject to_lock, thr_state s),
                                     (EvMonitorEnter (ext_DecodeJObject x to_lock), thr_state s),
                                     (EvSetLocalRefCookie (env_locals_segment_state s), thr_state s),
                                     (EvTransitionFromRunnableToSuspended kNative, thr_state s)]\<rparr>"
    and "c = env_local_ref_cookie s"
proof -
  from assms have h: "JniMethodStart b rt
      (s\<lparr>trace := trace s @ [(EvDecodeJObject to_lock, thr_state s),
                              (EvMonitorEnter (ext_DecodeJObject x to_lock), thr_state s)]\<rparr>)
      = Inr (rt', s', c)"
    by (cases s) (simp add: JniMethodStartSynchronized_def DecodeJObject_def MonitorEnter_def emit_def)
  show "s' = s\<lparr>thr_state := kNative, env_local_ref_cookie := env_locals_segment_state s,
                 trace := trace s @ [(EvDecodeJObject to_lock, thr_state s),
                                     (EvMonitorEnter (ext_DecodeJObject x to_lock), thr_state s),
                                     (EvSetLocalRefCookie (env_locals_segment_state s), thr_state s),
                                     (EvTransitionFromRunnableToSuspended kNative, thr_state s)]\<rparr>"
    unfolding JniMethodStart_Inr(1) [OF h] by simp
  show "c = env_local_ref_cookie s"
    unfolding JniMethodStart_Inr(2) [OF h] by simp
qed

lemma pops_unlock: "filter is_pop (unlock_calls x locked e1) = []"
  by (simp add: unlock_calls_def)

lemma pops_pop:
  "filter is_pop (pop_calls chk cookie saved) = [EvSetLocalSegmentState cookie]"
  by (simp add: pop_calls_def)

lemma pops_handle:
  "filter is_pop (handle_result_calls x chk e1 result cookie saved) = [EvSetLocalSegmentState cookie]"
  by (simp add: handle_result_calls_def pop_calls_def Let_def)

lemma pops_mode: "filter is_pop (mode_steps x called self) = []"
  by (simp add: mode_steps_def)

text \<open>What the lists of calls contain of each kind.\<close>

lemma transitions_pop: "filter is_transition (pop_calls chk cookie saved) = []"
  by (simp add: pop_calls_def)

lemma transitions_unlock: "filter is_transition (unlock_calls x locked e1) = []"
  by (simp add: unlock_calls_def)

lemma transitions_handle:
  "filter is_transition (handle_result_calls x chk e1 result cookie saved) = []"
  by (simp add: handle_result_calls_def pop_calls_def Let_def)

lemma suspends_pop: "filter is_check_suspend (pop_calls chk cookie saved) = []"
  by (simp add: pop_calls_def)

lemma suspends_unlock: "filter is_check_suspend (unlock_calls x locked e1) = []"
  by (simp add: unlock_calls_def)

lemma suspends_handle:
  "filter is_check_suspend (handle_result_calls x chk e1 result cookie saved) = []"
  by (simp add: handle_result_calls_def pop_calls_def Let_def)

lemma drop_rt_Inr: "drop_rt (Inr (rt, v)) = Inr v"
  by (simp add: drop_rt_def)

lemma drop_rt_Inl: "drop_rt (Inl e) = Inl e"
  by (simp add: drop_rt_def)

lemma drop_rt_and_then: "drop_rt (and_then m f) = and_then m (\<lambda>v. drop_rt (f v))"
  by (cases m) (simp_all add: and_then_def drop_rt_def)

lemmas drop_rt_simps =
  drop_rt_Inr drop_rt_Inl drop_rt_and_then if_distrib [of drop_rt]
  prod.case_distrib [of drop_rt] option.case_distrib [of drop_rt]

lemma JniMethodStart_indep:
  "drop_rt (JniMethodStart b rt1 self) = drop_rt (JniMethodStart b rt2 self)"
  by (simp add: JniMethodStart_def Let_def drop_rt_simps)

lemma JniMethodEnd_indep:
  "drop_rt (JniMethodEnd b x rt1 c self) = drop_rt (JniMethodEnd b x rt2 c self)"
  by (simp add: JniMethodEnd_def Let_def drop_rt_simps)

lemma HandleResult_indep:
  "drop_rt (JniMethodEndWithReferenceHandleResult x rt1 result c self)
     = drop_rt (JniMethodEndWithReferenceHandleResult x rt2 result c self)"
  by (simp add: JniMethodEndWithReferenceHandleResult_def Let_def drop_rt_simps)

lemma GenericJniMethodEnd_indep:
  "drop_rt (GenericJniMethodEnd b x rt1 self c jv result_f called)
     = drop_rt (GenericJniMethodEnd b x rt2 self c jv result_f called)"
  by (simp add: GenericJniMethodEnd_def Let_def drop_rt_simps
      HandleResult_indep [of x rt1 _ _ _ rt2] cong: if_cong option.case_cong)

lemma drop_rt_monitored_start:
  "drop_rt (and_then m (\<lambda>(rt1, self1, result). Inr (rt1, g self1, result)))
     = and_then (drop_rt m) (\<lambda>(self1, result). Inr (g self1, result))"
  by (cases m) (auto simp: and_then_def drop_rt_def)

lemma unlock_steps:
  "filter is_protocol_step (unlock_calls x locked e1) = [EvMonitorExit (ext_DecodeJObject x locked)]"
  by (simp add: unlock_calls_def)

subsection \<open>The order of the epilogue's steps\<close>

text \<open>
  C1, as amended. Whenever \<open>GenericJniMethodEnd\<close> returns, the mode-dependent steps and
  the monitor release it has run are, in this order: for a normal method (neither fast nor
  critical) the end hook of the monitoring shim, which is notified exactly when the palette
  asks for JNI invocations to be reported, and then the transition back to Runnable; for a
  fast method only the fast-path check, which tests the flags and runs the suspend check when
  one is raised; for a critical method that is not fast, nothing; and after that, for a
  synchronized method, the release of the monitor of its lock object.
\<close>

theorem GenericJniMethodEnd_step_order:
  assumes "GenericJniMethodEnd b x rt self c result result_f called = Inr (rt', self', v)"
  shows "filter is_protocol_step (calls_since self self') =
           mode_steps x called self
           @ (if IsSynchronized called
              then [EvMonitorExit
                      (ext_DecodeJObject x (ext_GetGenericJniSynchronizationObject x called))]
              else [])"
proof -
  from GenericJniMethodEnd_phases [OF assms] obtain s1 s2 where
    p1: "(if \<not> IsCriticalNative called \<and> \<not> IsFastNative called
          then GoToRunnable b (MONITOR_JNI EvPaletteNotifyEndJniInvocation x self)
          else if IsFastNative called then GoToRunnableFast b self else Inr self) = Inr s1"
    and p2: "(if IsSynchronized called
              then UnlockJniSynchronizedMethod x
                     (ext_GetGenericJniSynchronizationObject x called) s1
              else Inr s1) = Inr s2"
    and p3: "if return_shorty called = CHR ''L''
             then JniMethodEndWithReferenceHandleResult x rt (jv_l result) c s2
                    = Inr (rt', self', v)
             else (if \<not> IsCriticalNative called then PopLocalReferences x c s2 else Inr s2)
                    = Inr self'
                  \<and> rt' = rt
                  \<and> switch_return_shorty b x (return_shorty called) result result_f = Some v"
    by blast
  have e1: "\<exists>ev. trace s1 = trace self @ ev
              \<and> filter is_protocol_step (map fst ev) = mode_steps x called self"
    using p1
    by (auto simp: mode_steps_def MONITOR_JNI_eq split: if_splits
        dest!: GoToRunnable_Inr GoToRunnableFast_Inr)
  have e2: "\<exists>ev. trace s2 = trace s1 @ ev \<and> filter is_protocol_step (map fst ev) =
      (if IsSynchronized called
       then [EvMonitorExit (ext_DecodeJObject x (ext_GetGenericJniSynchronizationObject x called))]
       else [])"
    using p2
    by (auto simp: comp_def unlock_steps split: if_splits
        dest!: UnlockJniSynchronizedMethod_Inr(1))
  have e3: "\<exists>ev. trace self' = trace s2 @ ev \<and> filter is_protocol_step (map fst ev) = []"
    using p3
    by (auto simp: comp_def split: if_splits dest!: HandleResult_Inr(2) PopLocalReferences_Inr)
  from e1 e2 e3 show ?thesis
    by (auto simp: calls_since_def)
qed

text \<open>A synchronized normal method with exception \<open>9\<close> pending, reported to the palette:
  the hook, the transition, and then the release of the monitor of the object \<open>0x1020\<close>.\<close>

theorem GenericJniMethodEnd_step_order_witness:
  defines "B \<equiv> ex_build False True kArm64"
  defines "X \<equiv> ex_ext True 0"
  defines "RT \<equiv> ex_runtime False"
  defines "Ms_i \<equiv> ex_method False False True ''I''"
  defines "S \<equiv> ex_thread kNative 0 9 Ms_i"
  defines "Sa \<equiv> S
      \<lparr>thr_state := kRunnable, env_local_ref_cookie := 5, env_locals_segment_state := 3,
       trace :=
         [(EvPaletteNotifyEndJniInvocation, kNative),
          (EvTransitionFromSuspendedToRunnable, kNative),
          (EvClearException, kRunnable), (EvDecodeJObject 0x20, kRunnable),
          (EvMonitorExit 0x1020, kRunnable), (EvSetException 9, kRunnable),
          (EvSetLocalSegmentState 3, kRunnable),
          (EvSetLocalRefCookie 5, kRunnable)]\<rparr>"
  shows
    "GenericJniMethodEnd B X RT S 5 ex_jvalue 0 Ms_i
       = Inr (RT, Sa, 0xFFFFFFFFFFFFFFFD)
     \<and> filter is_protocol_step (calls_since S Sa)
         = [EvPaletteNotifyEndJniInvocation, EvTransitionFromSuspendedToRunnable,
            EvMonitorExit 0x1020]"
proof -
  note d = B_def X_def RT_def Ms_i_def
  have run: "GenericJniMethodEnd B X RT S 5 ex_jvalue 0 Ms_i
       = Inr (RT, Sa, 0xFFFFFFFFFFFFFFFD)"
    by (simp add: d S_def Sa_def entrypoint_defs runtime_call_defs example_defs)
  from GenericJniMethodEnd_step_order [OF run] run show ?thesis
    by (simp add: d S_def mode_steps_def example_defs)
qed

text \<open>The claim as stated fails where the palette does not ask for reports: a normal method
  goes back to Runnable and pops its scope, and the end hook is never notified.\<close>

theorem GenericJniMethodEnd_normal_unreported:
  defines "B \<equiv> ex_build False True kArm64"
  defines "Xq \<equiv> ex_ext False 0"
  defines "RT \<equiv> ex_runtime False"
  defines "M_v \<equiv> ex_method False False False ''V''"
  shows
    "GenericJniMethodEnd B Xq RT
       (ex_thread kNative 0 0 M_v) 5 ex_jvalue 0
       M_v
     = Inr (RT,
            ex_thread kNative 0 0 M_v
            \<lparr>thr_state := kRunnable, env_local_ref_cookie := 5, env_locals_segment_state := 3,
             trace :=
               [(EvTransitionFromSuspendedToRunnable, kNative),
                (EvSetLocalSegmentState 3, kRunnable),
                (EvSetLocalRefCookie 5, kRunnable)]\<rparr>,
            0)
     \<and> \<not> ext_PaletteShouldReportJniInvocations Xq"
  by (simp add: B_def Xq_def RT_def M_v_def
      entrypoint_defs runtime_call_defs example_defs)

subsection \<open>The monitor release and a pending exception\<close>

text \<open>
  C2. \<open>UnlockJniSynchronizedMethod\<close> on a thread with any pending exception \<open>e1\<close>
  (\<open>0\<close> when none): an exception that is pending is cleared before the lock handle is
  decoded and the monitor is released; when the release leaves an exception \<open>e2\<close> pending
  the process is terminated with the fatal report of \<open>e1\<close> and \<open>e2\<close>; otherwise
  \<open>e1\<close> is set again after the release, and the thread differs from the thread at entry
  only in the calls made. Every synchronized End that returns (\<open>JniMethodEndSynchronized\<close>,
  \<open>JniMethodEndWithReferenceSynchronized\<close>, \<open>GenericJniMethodEnd\<close> of a synchronized
  method) has released the monitor exactly once and has the exception that was pending at
  entry pending at exit; a synchronized End whose release fails terminates with both
  exceptions.
\<close>

theorem synchronized_end_exception_safe:
  "UnlockJniSynchronizedMethod x locked self =
     (let obj = ext_DecodeJObject x locked;
          e1 = thr_exception self;
          e2 = ext_MonitorExit_throws x obj
      in if e2 \<noteq> 0
         then Inl (SecondException e1 e2,
                   self\<lparr>thr_exception := e2,
                        trace := trace self @ map (\<lambda>e. (e, thr_state self))
                          ((if e1 \<noteq> 0 then [EvClearException] else [])
                           @ [EvDecodeJObject locked, EvMonitorExit obj])\<rparr>)
         else Inr (self\<lparr>trace := trace self
                     @ map (\<lambda>e. (e, thr_state self)) (unlock_calls x locked e1)\<rparr>))
   \<and> (JniMethodEndSynchronized b x c locked self = Inr sa \<longrightarrow>
        thr_exception sa = thr_exception self
        \<and> filter is_monitor_exit (calls_since self sa)
            = [EvMonitorExit (ext_DecodeJObject x locked)])
   \<and> (JniMethodEndWithReferenceSynchronized b x rt result c locked self = Inr (rtb, sb, objb)
        \<longrightarrow>
        thr_exception sb = thr_exception self
        \<and> filter is_monitor_exit (calls_since self sb)
            = [EvMonitorExit (ext_DecodeJObject x locked)])
   \<and> (GenericJniMethodEnd b x rt self c jv result_f called = Inr (rtc, sc, vc)
        \<and> IsSynchronized called \<longrightarrow>
        thr_exception sc = thr_exception self
        \<and> filter is_monitor_exit (calls_since self sc)
            = [EvMonitorExit
                 (ext_DecodeJObject x (ext_GetGenericJniSynchronizationObject x called))])
   \<and> (GoToRunnable b self = Inr sd
        \<and> ext_MonitorExit_throws x (ext_DecodeJObject x locked) \<noteq> 0 \<longrightarrow>
        (\<exists>s. JniMethodEndSynchronized b x c locked self
               = Inl (SecondException (thr_exception self)
                        (ext_MonitorExit_throws x (ext_DecodeJObject x locked)), s)))"
proof (intro conjI impI)
  show "UnlockJniSynchronizedMethod x locked self =
     (let obj = ext_DecodeJObject x locked;
          e1 = thr_exception self;
          e2 = ext_MonitorExit_throws x obj
      in if e2 \<noteq> 0
         then Inl (SecondException e1 e2,
                   self\<lparr>thr_exception := e2,
                        trace := trace self @ map (\<lambda>e. (e, thr_state self))
                          ((if e1 \<noteq> 0 then [EvClearException] else [])
                           @ [EvDecodeJObject locked, EvMonitorExit obj])\<rparr>)
         else Inr (self\<lparr>trace := trace self
                     @ map (\<lambda>e. (e, thr_state self)) (unlock_calls x locked e1)\<rparr>))"
    by (rule UnlockJniSynchronizedMethod_eq)
next
  assume h: "JniMethodEndSynchronized b x c locked self = Inr sa"
  show "thr_exception sa = thr_exception self"
    unfolding JniMethodEndSynchronized_Inr [OF h] by simp
  show "filter is_monitor_exit (calls_since self sa)
          = [EvMonitorExit (ext_DecodeJObject x locked)]"
    unfolding JniMethodEndSynchronized_Inr [OF h]
    by (simp add: calls_since_def comp_def monitor_exits_unlock monitor_exits_pop)
next
  assume h: "JniMethodEndWithReferenceSynchronized b x rt result c locked self
               = Inr (rtb, sb, objb)"
  show "thr_exception sb = thr_exception self"
    unfolding JniMethodEndWithReferenceSynchronized_Inr(1) [OF h] by simp
  show "filter is_monitor_exit (calls_since self sb)
          = [EvMonitorExit (ext_DecodeJObject x locked)]"
    unfolding JniMethodEndWithReferenceSynchronized_Inr(1) [OF h]
    by (simp add: calls_since_def comp_def monitor_exits_unlock monitor_exits_handle)
next
  assume "GenericJniMethodEnd b x rt self c jv result_f called = Inr (rtc, sc, vc)
        \<and> IsSynchronized called"
  then have h: "GenericJniMethodEnd b x rt self c jv result_f called = Inr (rtc, sc, vc)"
    and sy: "IsSynchronized called" by simp_all
  show "thr_exception sc = thr_exception self"
    unfolding GenericJniMethodEnd_Inr [OF h] by simp
  show "filter is_monitor_exit (calls_since self sc)
          = [EvMonitorExit
               (ext_DecodeJObject x (ext_GetGenericJniSynchronizationObject x called))]"
    unfolding GenericJniMethodEnd_Inr [OF h] using sy
    by (simp add: calls_since_def comp_def generic_end_calls_def monitor_exits_unlock
        monitor_exits_pop monitor_exits_handle monitor_exits_mode)
next
  assume "GoToRunnable b self = Inr sd
        \<and> ext_MonitorExit_throws x (ext_DecodeJObject x locked) \<noteq> 0"
  then show "\<exists>s. JniMethodEndSynchronized b x c locked self
               = Inl (SecondException (thr_exception self)
                        (ext_MonitorExit_throws x (ext_DecodeJObject x locked)), s)"
    by (auto simp: JniMethodEndSynchronized_def and_then_def UnlockJniSynchronizedMethod_eq
        Let_def dest!: GoToRunnable_Inr)
qed

text \<open>A synchronized method that returns a reference, with exception \<open>9\<close> pending: the
  three synchronized Ends where the release succeeds, and \<open>JniMethodEndSynchronized\<close>
  where the release raises \<open>0x77\<close>.\<close>

theorem synchronized_end_exception_safe_witness:
  defines "B \<equiv> ex_build False True kArm64"
  defines "X \<equiv> ex_ext True 0"
  defines "Xt \<equiv> ex_ext True 0x77"
  defines "RT \<equiv> ex_runtime False"
  defines "Ms_l \<equiv> ex_method False False True ''L''"
  defines "S \<equiv> ex_thread kNative 0 9 Ms_l"
  defines "Sa \<equiv> S
      \<lparr>thr_state := kRunnable, env_local_ref_cookie := 5, env_locals_segment_state := 3,
       trace :=
         [(EvTransitionFromSuspendedToRunnable, kNative),
          (EvClearException, kRunnable), (EvDecodeJObject 0x20, kRunnable),
          (EvMonitorExit 0x1020, kRunnable), (EvSetException 9, kRunnable),
          (EvSetLocalSegmentState 3, kRunnable),
          (EvSetLocalRefCookie 5, kRunnable)]\<rparr>"
  defines "Sb \<equiv> S
      \<lparr>thr_state := kRunnable, env_local_ref_cookie := 5, env_locals_segment_state := 3,
       trace :=
         [(EvTransitionFromSuspendedToRunnable, kNative),
          (EvClearException, kRunnable), (EvDecodeJObject 0x20, kRunnable),
          (EvMonitorExit 0x1020, kRunnable), (EvSetException 9, kRunnable),
          (EvSetLocalSegmentState 3, kRunnable),
          (EvSetLocalRefCookie 5, kRunnable), (EvVerifyObject 0, kRunnable)]\<rparr>"
  defines "Sc \<equiv> S
      \<lparr>thr_state := kRunnable, env_local_ref_cookie := 5, env_locals_segment_state := 3,
       trace :=
         [(EvPaletteNotifyEndJniInvocation, kNative),
          (EvTransitionFromSuspendedToRunnable, kNative),
          (EvClearException, kRunnable), (EvDecodeJObject 0x20, kRunnable),
          (EvMonitorExit 0x1020, kRunnable), (EvSetException 9, kRunnable),
          (EvSetLocalSegmentState 3, kRunnable),
          (EvSetLocalRefCookie 5, kRunnable), (EvVerifyObject 0, kRunnable)]\<rparr>"
  defines "Sd \<equiv> S
      \<lparr>thr_state := kRunnable,
       trace :=
         [(EvTransitionFromSuspendedToRunnable, kNative)]\<rparr>"
  defines "Se \<equiv> S
      \<lparr>thr_state := kRunnable, thr_exception := 0x77,
       trace :=
         [(EvTransitionFromSuspendedToRunnable, kNative),
          (EvClearException, kRunnable), (EvDecodeJObject 0x20, kRunnable),
          (EvMonitorExit 0x1020, kRunnable)]\<rparr>"
  shows
    "JniMethodEndSynchronized B X 5 0x20 S = Inr Sa
     \<and> thr_exception Sa = 9
     \<and> filter is_monitor_exit (calls_since S Sa) = [EvMonitorExit 0x1020]
     \<and> JniMethodEndWithReferenceSynchronized B X RT 0x44 5 0x20 S
         = Inr (RT, Sb, 0)
     \<and> thr_exception Sb = 9
     \<and> filter is_monitor_exit (calls_since S Sb) = [EvMonitorExit 0x1020]
     \<and> GenericJniMethodEnd B X RT S 5 ex_jvalue 0 Ms_l
         = Inr (RT, Sc, 0)
     \<and> thr_exception Sc = 9
     \<and> filter is_monitor_exit (calls_since S Sc) = [EvMonitorExit 0x1020]
     \<and> GoToRunnable B S = Inr Sd
     \<and> JniMethodEndSynchronized B Xt 5 0x20 S
         = Inl (SecondException 9 0x77, Se)"
proof -
  note d = B_def X_def Xt_def RT_def Ms_l_def
  have ra: "JniMethodEndSynchronized B X 5 0x20 S = Inr Sa"
    by (simp add: d S_def Sa_def entrypoint_defs runtime_call_defs example_defs)
  have rb: "JniMethodEndWithReferenceSynchronized B X RT 0x44 5 0x20 S
         = Inr (RT, Sb, 0)"
    by (simp add: d S_def Sb_def entrypoint_defs runtime_call_defs example_defs)
  have rc: "GenericJniMethodEnd B X RT S 5 ex_jvalue 0 Ms_l
         = Inr (RT, Sc, 0)"
    by (simp add: d S_def Sc_def entrypoint_defs runtime_call_defs example_defs)
  have rd: "GoToRunnable B S = Inr Sd"
    by (simp add: d S_def Sd_def entrypoint_defs runtime_call_defs example_defs)
  have re: "JniMethodEndSynchronized B Xt 5 0x20 S
         = Inl (SecondException 9 0x77, Se)"
    by (simp add: d S_def Se_def entrypoint_defs runtime_call_defs example_defs)
  have sy: "IsSynchronized Ms_l" by (simp add: d example_defs)
  have thr: "ext_MonitorExit_throws Xt (ext_DecodeJObject Xt 0x20) \<noteq> 0"
    by (simp add: d example_defs)
  note ok = synchronized_end_exception_safe [where x = X and b = B
      and locked = "0x20" and self = S and c = 5 and rt = RT and result = "0x44"
      and jv = ex_jvalue and result_f = 0 and called = Ms_l
      and sa = Sa and rtb = RT and sb = Sb and objb = 0
      and rtc = RT and sc = Sc and vc = 0]
  note bad = synchronized_end_exception_safe [where x = Xt and b = B
      and locked = "0x20" and self = S and c = 5 and sd = Sd]
  from ok ra rb rc sy have
    "thr_exception Sa = thr_exception S \<and> thr_exception Sb = thr_exception S
     \<and> thr_exception Sc = thr_exception S
     \<and> filter is_monitor_exit (calls_since S Sa) = [EvMonitorExit (ext_DecodeJObject X 0x20)]
     \<and> filter is_monitor_exit (calls_since S Sb) = [EvMonitorExit (ext_DecodeJObject X 0x20)]
     \<and> filter is_monitor_exit (calls_since S Sc)
         = [EvMonitorExit (ext_DecodeJObject X
              (ext_GetGenericJniSynchronizationObject X Ms_l))]"
    by blast
  moreover from bad rd thr have
    "\<exists>s. JniMethodEndSynchronized B Xt 5 0x20 S
       = Inl (SecondException (thr_exception S)
           (ext_MonitorExit_throws Xt (ext_DecodeJObject Xt 0x20)), s)"
    by blast
  ultimately show ?thesis
    using ra rb rc rd re by (simp add: d S_def example_defs)
qed

subsection \<open>Reference results\<close>

text \<open>
  C3. Whenever the handler of a reference result returns, the reference it returns is null
  (\<open>0\<close>) if an exception was pending when it was entered, whatever the raw handle, and
  the handle is then not decoded; if no exception was pending, the handle is decoded once
  and the reference returned is the object it refers to. The same holds of the value
  returned by every End that returns a reference (\<open>JniMethodEndWithReference\<close>,
  \<open>JniMethodFastEndWithReference\<close>, \<open>JniMethodEndWithReferenceSynchronized\<close>, and
  \<open>GenericJniMethodEnd\<close> of a method whose return shorty is \<open>L\<close>), for the exception
  pending when the End is entered.
\<close>

theorem reference_result_decoded_unless_exception:
  "(JniMethodEndWithReferenceHandleResult x rt result c self = Inr (rtz, sz, objz) \<longrightarrow>
      objz = (if thr_exception self \<noteq> 0 then 0 else ext_DecodeJObject x result)
      \<and> filter is_decode (calls_since self sz)
          = (if thr_exception self \<noteq> 0 then [] else [EvDecodeJObject result]))
   \<and> (JniMethodEndWithReference b x rt result c self = Inr (rta, sa, obja) \<longrightarrow>
      obja = (if thr_exception self \<noteq> 0 then 0 else ext_DecodeJObject x result))
   \<and> (JniMethodFastEndWithReference b x rt result c self = Inr (rtb, sb, objb) \<longrightarrow>
      objb = (if thr_exception self \<noteq> 0 then 0 else ext_DecodeJObject x result))
   \<and> (JniMethodEndWithReferenceSynchronized b x rt result c locked self = Inr (rtc, sc, objc)
      \<longrightarrow>
      objc = (if thr_exception self \<noteq> 0 then 0 else ext_DecodeJObject x result))
   \<and> (GenericJniMethodEnd b x rt self c jv result_f called = Inr (rtd, sd, vd)
        \<and> return_shorty called = CHR ''L'' \<longrightarrow>
      vd = (if thr_exception self \<noteq> 0 then 0 else ext_DecodeJObject x (jv_l jv)))"
proof (intro conjI impI)
  assume h: "JniMethodEndWithReferenceHandleResult x rt result c self = Inr (rtz, sz, objz)"
  show "objz = (if thr_exception self \<noteq> 0 then 0 else ext_DecodeJObject x result)"
    by (rule HandleResult_Inr(1) [OF h])
  show "filter is_decode (calls_since self sz)
          = (if thr_exception self \<noteq> 0 then [] else [EvDecodeJObject result])"
    unfolding HandleResult_Inr' [OF h]
    by (simp add: calls_since_def comp_def decodes_handle)
next
  assume "JniMethodEndWithReference b x rt result c self = Inr (rta, sa, obja)"
  then show "obja = (if thr_exception self \<noteq> 0 then 0 else ext_DecodeJObject x result)"
    by (rule JniMethodEndWithReference_Inr(2))
next
  assume "JniMethodFastEndWithReference b x rt result c self = Inr (rtb, sb, objb)"
  then show "objb = (if thr_exception self \<noteq> 0 then 0 else ext_DecodeJObject x result)"
    by (rule JniMethodFastEndWithReference_Inr(2))
next
  assume "JniMethodEndWithReferenceSynchronized b x rt result c locked self
            = Inr (rtc, sc, objc)"
  then show "objc = (if thr_exception self \<noteq> 0 then 0 else ext_DecodeJObject x result)"
    by (rule JniMethodEndWithReferenceSynchronized_Inr(2))
next
  assume "GenericJniMethodEnd b x rt self c jv result_f called = Inr (rtd, sd, vd)
        \<and> return_shorty called = CHR ''L''"
  then show "vd = (if thr_exception self \<noteq> 0 then 0 else ext_DecodeJObject x (jv_l jv))"
    using GenericJniMethodEnd_value [of b x rt self c jv result_f called rtd sd vd] by simp
qed

text \<open>The handle \<open>0x44\<close> refers to the object \<open>0x1044\<close>. With no exception pending the
  handler, \<open>JniMethodEndWithReference\<close> and \<open>GenericJniMethodEnd\<close> return that object; with
  exception \<open>9\<close> pending the handler, \<open>JniMethodFastEndWithReference\<close> and
  \<open>JniMethodEndWithReferenceSynchronized\<close> return null.\<close>

theorem reference_result_decoded_unless_exception_witness:
  defines "B \<equiv> ex_build False True kArm64"
  defines "X \<equiv> ex_ext True 0"
  defines "RT \<equiv> ex_runtime False"
  defines "M_l \<equiv> ex_method False False False ''L''"
  defines "Mf_l \<equiv> ex_method True False False ''L''"
  defines "Ms_l \<equiv> ex_method False False True ''L''"
  defines "Sn \<equiv> ex_thread kNative 0 0 M_l"
  defines "Snz \<equiv> Sn
      \<lparr>env_local_ref_cookie := 5, env_locals_segment_state := 3,
       trace :=
         [(EvDecodeJObject 0x44, kNative), (EvSetLocalSegmentState 3, kNative),
          (EvSetLocalRefCookie 5, kNative), (EvVerifyObject 0x1044, kNative)]\<rparr>"
  defines "Sna \<equiv> Sn
      \<lparr>thr_state := kRunnable, env_local_ref_cookie := 5, env_locals_segment_state := 3,
       trace :=
         [(EvTransitionFromSuspendedToRunnable, kNative),
          (EvDecodeJObject 0x44, kRunnable),
          (EvSetLocalSegmentState 3, kRunnable),
          (EvSetLocalRefCookie 5, kRunnable), (EvVerifyObject 0x1044, kRunnable)]\<rparr>"
  defines "Snd \<equiv> Sn
      \<lparr>thr_state := kRunnable, env_local_ref_cookie := 5, env_locals_segment_state := 3,
       trace :=
         [(EvPaletteNotifyEndJniInvocation, kNative),
          (EvTransitionFromSuspendedToRunnable, kNative),
          (EvDecodeJObject 0x44, kRunnable),
          (EvSetLocalSegmentState 3, kRunnable),
          (EvSetLocalRefCookie 5, kRunnable), (EvVerifyObject 0x1044, kRunnable)]\<rparr>"
  defines "Se \<equiv> ex_thread kNative 0 9 M_l"
  defines "Sez \<equiv> Se
      \<lparr>env_local_ref_cookie := 5, env_locals_segment_state := 3,
       trace :=
         [(EvSetLocalSegmentState 3, kNative),
          (EvSetLocalRefCookie 5, kNative), (EvVerifyObject 0, kNative)]\<rparr>"
  defines "Sf \<equiv> ex_thread kRunnable 0 9 Mf_l"
  defines "Sfb \<equiv> Sf
      \<lparr>env_local_ref_cookie := 5, env_locals_segment_state := 3,
       trace :=
         [(EvTestAllFlags, kRunnable), (EvSetLocalSegmentState 3, kRunnable),
          (EvSetLocalRefCookie 5, kRunnable), (EvVerifyObject 0, kRunnable)]\<rparr>"
  defines "Sy \<equiv> ex_thread kNative 0 9 Ms_l"
  defines "Syc \<equiv> Sy
      \<lparr>thr_state := kRunnable, env_local_ref_cookie := 5, env_locals_segment_state := 3,
       trace :=
         [(EvTransitionFromSuspendedToRunnable, kNative),
          (EvClearException, kRunnable), (EvDecodeJObject 0x20, kRunnable),
          (EvMonitorExit 0x1020, kRunnable), (EvSetException 9, kRunnable),
          (EvSetLocalSegmentState 3, kRunnable),
          (EvSetLocalRefCookie 5, kRunnable), (EvVerifyObject 0, kRunnable)]\<rparr>"
  shows
    "JniMethodEndWithReferenceHandleResult X RT 0x44 5 Sn = Inr (RT, Snz, 0x1044)
     \<and> filter is_decode (calls_since Sn Snz) = [EvDecodeJObject 0x44]
     \<and> JniMethodEndWithReferenceHandleResult X RT 0x44 5 Se = Inr (RT, Sez, 0)
     \<and> filter is_decode (calls_since Se Sez) = []
     \<and> JniMethodEndWithReference B X RT 0x44 5 Sn
         = Inr (RT, Sna, 0x1044)
     \<and> JniMethodFastEndWithReference B X RT 0x44 5 Sf
         = Inr (RT, Sfb, 0)
     \<and> JniMethodEndWithReferenceSynchronized B X RT 0x44 5 0x20 Sy
         = Inr (RT, Syc, 0)
     \<and> GenericJniMethodEnd B X RT Sn 5 ex_jvalue 0 M_l
         = Inr (RT, Snd, 0x1044)"
proof -
  note d = B_def X_def RT_def M_l_def Mf_l_def Ms_l_def
  have rz: "JniMethodEndWithReferenceHandleResult X RT 0x44 5 Sn
              = Inr (RT, Snz, 0x1044)"
    by (simp add: d Sn_def Snz_def entrypoint_defs runtime_call_defs example_defs)
  have re: "JniMethodEndWithReferenceHandleResult X RT 0x44 5 Se
              = Inr (RT, Sez, 0)"
    by (simp add: d Se_def Sez_def entrypoint_defs runtime_call_defs example_defs)
  have ra: "JniMethodEndWithReference B X RT 0x44 5 Sn
              = Inr (RT, Sna, 0x1044)"
    by (simp add: d Sn_def Sna_def entrypoint_defs runtime_call_defs example_defs)
  have rb: "JniMethodFastEndWithReference B X RT 0x44 5 Sf
              = Inr (RT, Sfb, 0)"
    by (simp add: d Sf_def Sfb_def entrypoint_defs runtime_call_defs example_defs)
  have rc: "JniMethodEndWithReferenceSynchronized B X RT 0x44 5 0x20 Sy
              = Inr (RT, Syc, 0)"
    by (simp add: d Sy_def Syc_def entrypoint_defs runtime_call_defs example_defs)
  have rd: "GenericJniMethodEnd B X RT Sn 5 ex_jvalue 0 M_l
              = Inr (RT, Snd, 0x1044)"
    by (simp add: d Sn_def Snd_def entrypoint_defs runtime_call_defs example_defs)
  have sh: "return_shorty M_l = CHR ''L''"
    by (simp add: d return_shorty_def example_defs)
  note n = reference_result_decoded_unless_exception [where x = X and b = B
      and rt = RT and result = "0x44" and c = 5 and self = Sn
      and rtz = RT and sz = Snz and objz = "0x1044"
      and rta = RT and sa = Sna and obja = "0x1044"
      and jv = ex_jvalue and result_f = 0 and called = M_l
      and rtd = RT and sd = Snd and vd = "0x1044"]
  note e = reference_result_decoded_unless_exception [where x = X
      and rt = RT and result = "0x44" and c = 5 and self = Se
      and rtz = RT and sz = Sez and objz = 0]
  note f = reference_result_decoded_unless_exception [where x = X and b = B
      and rt = RT and result = "0x44" and c = 5 and self = Sf
      and rtb = RT and sb = Sfb and objb = 0]
  note y = reference_result_decoded_unless_exception [where x = X and b = B
      and rt = RT and result = "0x44" and c = 5 and self = Sy and locked = "0x20"
      and rtc = RT and sc = Syc and objc = 0]
  from n rz ra rd sh have
    "filter is_decode (calls_since Sn Snz)
       = (if thr_exception Sn \<noteq> 0 then [] else [EvDecodeJObject 0x44])
     \<and> (0x1044 :: objptr)
         = (if thr_exception Sn \<noteq> 0 then 0 else ext_DecodeJObject X 0x44)
     \<and> (0x1044 :: objptr)
         = (if thr_exception Sn \<noteq> 0 then 0 else ext_DecodeJObject X (jv_l ex_jvalue))"
    by blast
  moreover from e re have
    "filter is_decode (calls_since Se Sez)
       = (if thr_exception Se \<noteq> 0 then [] else [EvDecodeJObject 0x44])"
    by blast
  moreover from f rb have
    "(0 :: objptr) = (if thr_exception Sf \<noteq> 0 then 0 else ext_DecodeJObject X 0x44)"
    by blast
  moreover from y rc have
    "(0 :: objptr) = (if thr_exception Sy \<noteq> 0 then 0 else ext_DecodeJObject X 0x44)"
    by blast
  ultimately show ?thesis
    using rz re ra rb rc rd by (simp add: d Sn_def Se_def example_defs)
qed

subsection \<open>Start followed by End\<close>

text \<open>
  C4, as amended. Take a thread that is Runnable, as a thread that calls a native method
  from managed code is. In the normal, the fast and the synchronized mode, a Start followed
  at once by the matching End, given the cookie that Start returned, leaves the segment
  state and the saved cookie of the local reference scope and the state of the thread as
  they were before Start. This holds of each End of the mode: \<open>JniMethodStart\<close> with
  \<open>JniMethodEnd\<close> or \<open>JniMethodEndWithReference\<close>; \<open>JniMethodFastStart\<close> with
  \<open>JniMethodFastEnd\<close> or \<open>JniMethodFastEndWithReference\<close>;
  \<open>JniMethodStartSynchronized\<close> with \<open>JniMethodEndSynchronized\<close> or
  \<open>JniMethodEndWithReferenceSynchronized\<close>; and each of these Starts with
  \<open>GenericJniMethodEnd\<close> of a method of its mode. A critical method has no Start, and its
  End is \<open>GenericJniMethodEnd\<close> alone: when its return shorty is not \<open>L\<close> the scope and
  the state are left as they were; when its return shorty is \<open>L\<close> the state is left as it
  was, but the scope is popped although nothing was pushed, so that the segment state
  becomes the saved cookie the thread had and the saved cookie becomes the cookie passed to
  End.
\<close>

theorem start_end_round_trip:
  assumes "thr_state self = kRunnable"
  shows
   "(JniMethodStart b rt self = Inr (rta, sa, ca)
       \<and> JniMethodEnd b x rta ca sa = Inr (rtb, sb) \<longrightarrow> same_scope_and_state self sb)
    \<and> (JniMethodStart b rt self = Inr (rta, sa, ca)
       \<and> JniMethodEndWithReference b x rta result ca sa = Inr (rtc, sc, objc)
       \<longrightarrow> same_scope_and_state self sc)
    \<and> (JniMethodFastStart b self = Inr (fa, cf)
       \<and> JniMethodFastEnd b x cf fa = Inr fb \<longrightarrow> same_scope_and_state self fb)
    \<and> (JniMethodFastStart b self = Inr (fa, cf)
       \<and> JniMethodFastEndWithReference b x rt result cf fa = Inr (rtd, fc, objd)
       \<longrightarrow> same_scope_and_state self fc)
    \<and> (JniMethodStartSynchronized b x rt to_lock self = Inr (rte, ya, cy)
       \<and> JniMethodEndSynchronized b x cy to_lock ya = Inr yb
       \<longrightarrow> same_scope_and_state self yb)
    \<and> (JniMethodStartSynchronized b x rt to_lock self = Inr (rte, ya, cy)
       \<and> JniMethodEndWithReferenceSynchronized b x rte result cy to_lock ya
           = Inr (rtf, yc, objf)
       \<longrightarrow> same_scope_and_state self yc)
    \<and> (JniMethodStart b rt self = Inr (rta, sa, ca)
       \<and> \<not> IsFastNative called_n \<and> \<not> IsCriticalNative called_n
       \<and> GenericJniMethodEnd b x rta sa ca jv result_f called_n = Inr (rtg, ga, va)
       \<longrightarrow> same_scope_and_state self ga)
    \<and> (JniMethodStartSynchronized b x rt to_lock self = Inr (rte, ya, cy)
       \<and> \<not> IsFastNative called_s \<and> \<not> IsCriticalNative called_s
       \<and> GenericJniMethodEnd b x rte ya cy jv result_f called_s = Inr (rth, gb, vb)
       \<longrightarrow> same_scope_and_state self gb)
    \<and> (JniMethodFastStart b self = Inr (fa, cf)
       \<and> IsFastNative called_f \<and> \<not> IsCriticalNative called_f
       \<and> GenericJniMethodEnd b x rt fa cf jv result_f called_f = Inr (rti, gc, vc)
       \<longrightarrow> same_scope_and_state self gc)
    \<and> (IsCriticalNative called_c \<and> \<not> IsFastNative called_c
       \<and> return_shorty called_c \<noteq> CHR ''L''
       \<and> GenericJniMethodEnd b x rt self c jv result_f called_c = Inr (rtj, gd, vd)
       \<longrightarrow> same_scope_and_state self gd)
    \<and> (IsCriticalNative called_l \<and> \<not> IsFastNative called_l
       \<and> return_shorty called_l = CHR ''L''
       \<and> GenericJniMethodEnd b x rt self c jv result_f called_l = Inr (rtk, ge, ve)
       \<longrightarrow> thr_state ge = thr_state self
           \<and> env_locals_segment_state ge = env_local_ref_cookie self
           \<and> env_local_ref_cookie ge = c)"
proof ((intro conjI impI; elim conjE), goal_cases)
  case 1
  show ?case
    unfolding JniMethodEnd_Inr [OF 1(2)] JniMethodStart_Inr(1) [OF 1(1)]
    using assms by (simp add: same_scope_and_state_def JniMethodStart_Inr(2) [OF 1(1)])
next
  case 2
  show ?case
    unfolding JniMethodEndWithReference_Inr(1) [OF 2(2)] JniMethodStart_Inr(1) [OF 2(1)]
    using assms by (simp add: same_scope_and_state_def JniMethodStart_Inr(2) [OF 2(1)])
next
  case 3
  show ?case
    unfolding JniMethodFastEnd_Inr [OF 3(2)] JniMethodFastStart_Inr(1) [OF 3(1)]
    using assms by (simp add: same_scope_and_state_def JniMethodFastStart_Inr(2) [OF 3(1)])
next
  case 4
  show ?case
    unfolding JniMethodFastEndWithReference_Inr(1) [OF 4(2)] JniMethodFastStart_Inr(1) [OF 4(1)]
    using assms by (simp add: same_scope_and_state_def JniMethodFastStart_Inr(2) [OF 4(1)])
next
  case 5
  show ?case
    unfolding JniMethodEndSynchronized_Inr [OF 5(2)] JniMethodStartSynchronized_Inr(1) [OF 5(1)]
    using assms
    by (simp add: same_scope_and_state_def JniMethodStartSynchronized_Inr(2) [OF 5(1)])
next
  case 6
  show ?case
    unfolding JniMethodEndWithReferenceSynchronized_Inr(1) [OF 6(2)]
      JniMethodStartSynchronized_Inr(1) [OF 6(1)]
    using assms
    by (simp add: same_scope_and_state_def JniMethodStartSynchronized_Inr(2) [OF 6(1)])
next
  case 7
  show ?case
    unfolding GenericJniMethodEnd_Inr [OF 7(4)] JniMethodStart_Inr(1) [OF 7(1)]
    using assms 7(2,3) by (simp add: same_scope_and_state_def JniMethodStart_Inr(2) [OF 7(1)])
next
  case 8
  show ?case
    unfolding GenericJniMethodEnd_Inr [OF 8(4)] JniMethodStartSynchronized_Inr(1) [OF 8(1)]
    using assms 8(2,3)
    by (simp add: same_scope_and_state_def JniMethodStartSynchronized_Inr(2) [OF 8(1)])
next
  case 9
  show ?case
    unfolding GenericJniMethodEnd_Inr [OF 9(4)] JniMethodFastStart_Inr(1) [OF 9(1)]
    using assms 9(2,3)
    by (simp add: same_scope_and_state_def JniMethodFastStart_Inr(2) [OF 9(1)])
next
  case 10
  show ?case
    unfolding GenericJniMethodEnd_Inr [OF 10(4)]
    using assms 10(1,2,3) by (simp add: same_scope_and_state_def)
next
  case 11
  show ?case
    unfolding GenericJniMethodEnd_Inr [OF 11(4)] using 11(1,2,3) by simp
next
  case 12
  show ?case
    unfolding GenericJniMethodEnd_Inr [OF 12(4)] using 12(1,2,3) by simp
next
  case 13
  show ?case
    unfolding GenericJniMethodEnd_Inr [OF 13(4)] using 13(1,2,3) by simp
qed

text \<open>A Runnable thread whose scope has segment state \<open>7\<close> and saved cookie \<open>3\<close>: the
  three Starts, and after each of them every End of its mode; the thread at the end is the
  thread at the start but for the calls made. The critical method that returns an \<open>int\<close>
  runs \<open>GenericJniMethodEnd\<close> alone, which makes no call; for the critical method that
  returns a reference it pops the scope.\<close>

theorem start_end_round_trip_witness:
  defines "B \<equiv> ex_build False True kArm64"
  defines "X \<equiv> ex_ext True 0"
  defines "RT \<equiv> ex_runtime False"
  defines "M_i \<equiv> ex_method False False False ''I''"
  defines "Ms_i \<equiv> ex_method False False True ''I''"
  defines "Mf_i \<equiv> ex_method True False False ''I''"
  defines "Mc_i \<equiv> ex_method False True False ''I''"
  defines "Mc_l \<equiv> ex_method False True False ''L''"
  defines "S \<equiv> ex_thread kRunnable 0 0 M_i"
  defines "Na \<equiv> S
      \<lparr>thr_state := kNative, env_local_ref_cookie := 7,
       trace :=
         [(EvSetLocalRefCookie 7, kRunnable),
          (EvTransitionFromRunnableToSuspended kNative, kRunnable)]\<rparr>"
  defines "Fa \<equiv> S
      \<lparr>env_local_ref_cookie := 7,
       trace :=
         [(EvSetLocalRefCookie 7, kRunnable)]\<rparr>"
  defines "Ya \<equiv> S
      \<lparr>thr_state := kNative, env_local_ref_cookie := 7,
       trace :=
         [(EvDecodeJObject 0x20, kRunnable),
          (EvMonitorEnter 0x1020, kRunnable),
          (EvSetLocalRefCookie 7, kRunnable),
          (EvTransitionFromRunnableToSuspended kNative, kRunnable)]\<rparr>"
  defines "Nb \<equiv> S
      \<lparr>trace :=
        [(EvSetLocalRefCookie 7, kRunnable),
         (EvTransitionFromRunnableToSuspended kNative, kRunnable),
         (EvTransitionFromSuspendedToRunnable, kNative),
         (EvSetLocalSegmentState 7, kRunnable),
         (EvSetLocalRefCookie 3, kRunnable)]\<rparr>"
  defines "Nc \<equiv> S
      \<lparr>trace :=
        [(EvSetLocalRefCookie 7, kRunnable),
         (EvTransitionFromRunnableToSuspended kNative, kRunnable),
         (EvTransitionFromSuspendedToRunnable, kNative),
         (EvDecodeJObject 0x44, kRunnable),
         (EvSetLocalSegmentState 7, kRunnable),
         (EvSetLocalRefCookie 3, kRunnable), (EvVerifyObject 0x1044, kRunnable)]\<rparr>"
  defines "Fb \<equiv> S
      \<lparr>trace :=
        [(EvSetLocalRefCookie 7, kRunnable), (EvTestAllFlags, kRunnable),
         (EvSetLocalSegmentState 7, kRunnable),
         (EvSetLocalRefCookie 3, kRunnable)]\<rparr>"
  defines "Fc \<equiv> S
      \<lparr>trace :=
        [(EvSetLocalRefCookie 7, kRunnable), (EvTestAllFlags, kRunnable),
         (EvDecodeJObject 0x44, kRunnable),
         (EvSetLocalSegmentState 7, kRunnable),
         (EvSetLocalRefCookie 3, kRunnable), (EvVerifyObject 0x1044, kRunnable)]\<rparr>"
  defines "Yb \<equiv> S
      \<lparr>trace :=
        [(EvDecodeJObject 0x20, kRunnable),
         (EvMonitorEnter 0x1020, kRunnable),
         (EvSetLocalRefCookie 7, kRunnable),
         (EvTransitionFromRunnableToSuspended kNative, kRunnable),
         (EvTransitionFromSuspendedToRunnable, kNative),
         (EvDecodeJObject 0x20, kRunnable), (EvMonitorExit 0x1020, kRunnable),
         (EvSetLocalSegmentState 7, kRunnable),
         (EvSetLocalRefCookie 3, kRunnable)]\<rparr>"
  defines "Yc \<equiv> S
      \<lparr>trace :=
        [(EvDecodeJObject 0x20, kRunnable),
         (EvMonitorEnter 0x1020, kRunnable),
         (EvSetLocalRefCookie 7, kRunnable),
         (EvTransitionFromRunnableToSuspended kNative, kRunnable),
         (EvTransitionFromSuspendedToRunnable, kNative),
         (EvDecodeJObject 0x20, kRunnable), (EvMonitorExit 0x1020, kRunnable),
         (EvDecodeJObject 0x44, kRunnable),
         (EvSetLocalSegmentState 7, kRunnable),
         (EvSetLocalRefCookie 3, kRunnable), (EvVerifyObject 0x1044, kRunnable)]\<rparr>"
  defines "Gn \<equiv> S
      \<lparr>trace :=
        [(EvSetLocalRefCookie 7, kRunnable),
         (EvTransitionFromRunnableToSuspended kNative, kRunnable),
         (EvPaletteNotifyEndJniInvocation, kNative),
         (EvTransitionFromSuspendedToRunnable, kNative),
         (EvSetLocalSegmentState 7, kRunnable),
         (EvSetLocalRefCookie 3, kRunnable)]\<rparr>"
  defines "Gs \<equiv> S
      \<lparr>trace :=
        [(EvDecodeJObject 0x20, kRunnable),
         (EvMonitorEnter 0x1020, kRunnable),
         (EvSetLocalRefCookie 7, kRunnable),
         (EvTransitionFromRunnableToSuspended kNative, kRunnable),
         (EvPaletteNotifyEndJniInvocation, kNative),
         (EvTransitionFromSuspendedToRunnable, kNative),
         (EvDecodeJObject 0x20, kRunnable), (EvMonitorExit 0x1020, kRunnable),
         (EvSetLocalSegmentState 7, kRunnable),
         (EvSetLocalRefCookie 3, kRunnable)]\<rparr>"
  defines "Gf \<equiv> S
      \<lparr>trace :=
        [(EvSetLocalRefCookie 7, kRunnable), (EvTestAllFlags, kRunnable),
         (EvSetLocalSegmentState 7, kRunnable),
         (EvSetLocalRefCookie 3, kRunnable)]\<rparr>"
  defines "Gl \<equiv> S
      \<lparr>env_local_ref_cookie := 3, env_locals_segment_state := 3,
       trace :=
         [(EvDecodeJObject 0x44, kRunnable),
          (EvSetLocalSegmentState 3, kRunnable),
          (EvSetLocalRefCookie 3, kRunnable), (EvVerifyObject 0x1044, kRunnable)]\<rparr>"
  shows
    "thr_state S = kRunnable
     \<and> env_local_ref_cookie S = 3
     \<and> JniMethodStart B RT S = Inr (RT, Na, 3)
     \<and> JniMethodFastStart B S = Inr (Fa, 3)
     \<and> JniMethodStartSynchronized B X RT 0x20 S = Inr (RT, Ya, 3)
     \<and> JniMethodEnd B X RT 3 Na = Inr (RT, Nb)
     \<and> JniMethodEndWithReference B X RT 0x44 3 Na = Inr (RT, Nc, 0x1044)
     \<and> JniMethodFastEnd B X 3 Fa = Inr Fb
     \<and> JniMethodFastEndWithReference B X RT 0x44 3 Fa = Inr (RT, Fc, 0x1044)
     \<and> JniMethodEndSynchronized B X 3 0x20 Ya = Inr Yb
     \<and> JniMethodEndWithReferenceSynchronized B X RT 0x44 3 0x20 Ya
              = Inr (RT, Yc, 0x1044)
     \<and> GenericJniMethodEnd B X RT Na 3 ex_jvalue 0 M_i
              = Inr (RT, Gn, 0xFFFFFFFFFFFFFFFD)
     \<and> GenericJniMethodEnd B X RT Ya 3 ex_jvalue 0 Ms_i
              = Inr (RT, Gs, 0xFFFFFFFFFFFFFFFD)
     \<and> GenericJniMethodEnd B X RT Fa 3 ex_jvalue 0 Mf_i
              = Inr (RT, Gf, 0xFFFFFFFFFFFFFFFD)
     \<and> GenericJniMethodEnd B X RT S 3 ex_jvalue 0 Mc_i
              = Inr (RT, S, 0xFFFFFFFFFFFFFFFD)
     \<and> GenericJniMethodEnd B X RT S 3 ex_jvalue 0 Mc_l
              = Inr (RT, Gl, 0x1044)
     \<and> same_scope_and_state S Nb
     \<and> same_scope_and_state S Nc
     \<and> same_scope_and_state S Fb
     \<and> same_scope_and_state S Fc
     \<and> same_scope_and_state S Yb
     \<and> same_scope_and_state S Yc
     \<and> same_scope_and_state S Gn
     \<and> same_scope_and_state S Gs
     \<and> same_scope_and_state S Gf
     \<and> same_scope_and_state S S
     \<and> thr_state Gl = thr_state S
     \<and> env_locals_segment_state Gl = env_local_ref_cookie S
     \<and> env_local_ref_cookie Gl = 3"
proof -
  note d = B_def X_def RT_def M_i_def Ms_i_def Mf_i_def Mc_i_def Mc_l_def
  have st: "thr_state S = kRunnable" by (simp add: d S_def example_defs)
  have ck: "env_local_ref_cookie S = 3" by (simp add: d S_def example_defs)
  have sn: "JniMethodStart B RT S = Inr (RT, Na, 3)"
    by (simp add: d S_def Na_def entrypoint_defs runtime_call_defs example_defs)
  have sf: "JniMethodFastStart B S = Inr (Fa, 3)"
    by (simp add: d S_def Fa_def entrypoint_defs runtime_call_defs example_defs)
  have sy: "JniMethodStartSynchronized B X RT 0x20 S = Inr (RT, Ya, 3)"
    by (simp add: d S_def Ya_def entrypoint_defs runtime_call_defs example_defs)
  have en: "JniMethodEnd B X RT 3 Na = Inr (RT, Nb)"
    by (simp add: d S_def Na_def Nb_def entrypoint_defs runtime_call_defs example_defs)
  have rn: "JniMethodEndWithReference B X RT 0x44 3 Na = Inr (RT, Nc, 0x1044)"
    by (simp add: d S_def Na_def Nc_def entrypoint_defs runtime_call_defs example_defs)
  have ef: "JniMethodFastEnd B X 3 Fa = Inr Fb"
    by (simp add: d S_def Fa_def Fb_def entrypoint_defs runtime_call_defs example_defs)
  have rf: "JniMethodFastEndWithReference B X RT 0x44 3 Fa = Inr (RT, Fc, 0x1044)"
    by (simp add: d S_def Fa_def Fc_def entrypoint_defs runtime_call_defs example_defs)
  have ey: "JniMethodEndSynchronized B X 3 0x20 Ya = Inr Yb"
    by (simp add: d S_def Ya_def Yb_def entrypoint_defs runtime_call_defs example_defs)
  have ry: "JniMethodEndWithReferenceSynchronized B X RT 0x44 3 0x20 Ya
              = Inr (RT, Yc, 0x1044)"
    by (simp add: d S_def Ya_def Yc_def entrypoint_defs runtime_call_defs example_defs)
  have gn: "GenericJniMethodEnd B X RT Na 3 ex_jvalue 0 M_i
              = Inr (RT, Gn, 0xFFFFFFFFFFFFFFFD)"
    by (simp add: d S_def Na_def Gn_def entrypoint_defs runtime_call_defs example_defs)
  have gs: "GenericJniMethodEnd B X RT Ya 3 ex_jvalue 0 Ms_i
              = Inr (RT, Gs, 0xFFFFFFFFFFFFFFFD)"
    by (simp add: d S_def Ya_def Gs_def entrypoint_defs runtime_call_defs example_defs)
  have gf: "GenericJniMethodEnd B X RT Fa 3 ex_jvalue 0 Mf_i
              = Inr (RT, Gf, 0xFFFFFFFFFFFFFFFD)"
    by (simp add: d S_def Fa_def Gf_def entrypoint_defs runtime_call_defs example_defs)
  have gc: "GenericJniMethodEnd B X RT S 3 ex_jvalue 0 Mc_i
              = Inr (RT, S, 0xFFFFFFFFFFFFFFFD)"
    by (simp add: d S_def  entrypoint_defs runtime_call_defs example_defs)
  have gl: "GenericJniMethodEnd B X RT S 3 ex_jvalue 0 Mc_l
              = Inr (RT, Gl, 0x1044)"
    by (simp add: d S_def Gl_def entrypoint_defs runtime_call_defs example_defs)
  have fl: "\<not> IsFastNative M_i \<and> \<not> IsCriticalNative M_i
      \<and> \<not> IsFastNative Ms_i \<and> \<not> IsCriticalNative Ms_i
      \<and> IsFastNative Mf_i \<and> \<not> IsCriticalNative Mf_i
      \<and> IsCriticalNative Mc_i \<and> \<not> IsFastNative Mc_i
      \<and> return_shorty Mc_i \<noteq> CHR ''L''
      \<and> IsCriticalNative Mc_l \<and> \<not> IsFastNative Mc_l
      \<and> return_shorty Mc_l = CHR ''L''"
    by (simp add: d return_shorty_def example_defs)
  note t = start_end_round_trip [OF st, where b = B and x = X and rt = RT
      and result = "0x44" and to_lock = "0x20" and jv = ex_jvalue and result_f = 0 and c = 3
      and rta = RT and sa = Na and ca = 3 and rtb = RT and sb = Nb
      and rtc = RT and sc = Nc and objc = "0x1044"
      and fa = Fa and cf = 3 and fb = Fb and rtd = RT and fc = Fc and objd = "0x1044"
      and rte = RT and ya = Ya and cy = 3 and yb = Yb
      and rtf = RT and yc = Yc and objf = "0x1044"
      and called_n = M_i and rtg = RT and ga = Gn and va = "0xFFFFFFFFFFFFFFFD"
      and called_s = Ms_i and rth = RT and gb = Gs and vb = "0xFFFFFFFFFFFFFFFD"
      and called_f = Mf_i and rti = RT and gc = Gf and vc = "0xFFFFFFFFFFFFFFFD"
      and called_c = Mc_i and rtj = RT and gd = S and vd = "0xFFFFFFFFFFFFFFFD"
      and called_l = Mc_l and rtk = RT and ge = Gl and ve = "0x1044"]
  from t sn sf sy en rn ef rf ey ry gn gs gf gc gl fl have
    "same_scope_and_state S Nb
     \<and> same_scope_and_state S Nc
     \<and> same_scope_and_state S Fb
     \<and> same_scope_and_state S Fc
     \<and> same_scope_and_state S Yb
     \<and> same_scope_and_state S Yc
     \<and> same_scope_and_state S Gn
     \<and> same_scope_and_state S Gs
     \<and> same_scope_and_state S Gf
     \<and> same_scope_and_state S S
     \<and> thr_state Gl = thr_state S
     \<and> env_locals_segment_state Gl = env_local_ref_cookie S
     \<and> env_local_ref_cookie Gl = 3"
    by blast
  with st ck sn sf sy en rn ef rf ey ry gn gs gf gc gl show ?thesis by blast
qed

text \<open>The claim as stated fails in the critical mode: a critical method whose return shorty
  is \<open>L\<close> has had no Start, and \<open>GenericJniMethodEnd\<close>, given the saved cookie the thread
  has, pops the scope, so that the segment state \<open>7\<close> becomes \<open>3\<close>.\<close>

theorem critical_reference_end_changes_scope:
  defines "B \<equiv> ex_build False True kArm64"
  defines "X \<equiv> ex_ext True 0"
  defines "RT \<equiv> ex_runtime False"
  defines "Mc_l \<equiv> ex_method False True False ''L''"
  defines "S \<equiv> ex_thread kRunnable 0 0 Mc_l"
  defines "Sa \<equiv> S
      \<lparr>env_local_ref_cookie := 3, env_locals_segment_state := 3,
       trace :=
         [(EvDecodeJObject 0x44, kRunnable),
          (EvSetLocalSegmentState 3, kRunnable),
          (EvSetLocalRefCookie 3, kRunnable), (EvVerifyObject 0x1044, kRunnable)]\<rparr>"
  shows
    "thr_state S = kRunnable
     \<and> IsCriticalNative Mc_l
     \<and> env_locals_segment_state S = 7
     \<and> GenericJniMethodEnd B X RT S (env_local_ref_cookie S) ex_jvalue 0 Mc_l
         = Inr (RT, Sa, 0x1044)
     \<and> env_locals_segment_state Sa = 3
     \<and> \<not> same_scope_and_state S Sa"
  by (simp add: B_def X_def RT_def Mc_l_def S_def Sa_def same_scope_and_state_def
      entrypoint_defs runtime_call_defs example_defs)

subsection \<open>Pops of the local reference scope\<close>

text \<open>
  C5, as amended. Whenever \<open>GenericJniMethodEnd\<close> returns, it has popped the local
  reference scope exactly once, except for a critical method whose return shorty is not
  \<open>L\<close>, for which it has not popped the scope at all; the pop of a method that is not
  critical happens for every return shorty. A critical method whose return shorty is \<open>L\<close>
  is popped once, by the handler of reference results. Every other End that returns
  (\<open>JniMethodEnd\<close>, \<open>JniMethodFastEnd\<close>, \<open>JniMethodEndSynchronized\<close> and the three Ends
  that return a reference) has popped the scope exactly once. The file has no Start for a
  critical method, so nothing is pushed for it.
\<close>

theorem end_pops_scope_once_unless_critical:
  "(GenericJniMethodEnd b x rt self c jv result_f called = Inr (rtg, g, v) \<longrightarrow>
      filter is_pop (calls_since self g)
        = (if IsCriticalNative called \<and> return_shorty called \<noteq> CHR ''L'' then []
           else [EvSetLocalSegmentState (env_local_ref_cookie self)]))
   \<and> (JniMethodEnd b x rt c self = Inr (rta, sa) \<longrightarrow>
      filter is_pop (calls_since self sa) = [EvSetLocalSegmentState (env_local_ref_cookie self)])
   \<and> (JniMethodFastEnd b x c self = Inr sb \<longrightarrow>
      filter is_pop (calls_since self sb) = [EvSetLocalSegmentState (env_local_ref_cookie self)])
   \<and> (JniMethodEndSynchronized b x c locked self = Inr sc \<longrightarrow>
      filter is_pop (calls_since self sc) = [EvSetLocalSegmentState (env_local_ref_cookie self)])
   \<and> (JniMethodEndWithReference b x rt result c self = Inr (rtd, sd, objd) \<longrightarrow>
      filter is_pop (calls_since self sd) = [EvSetLocalSegmentState (env_local_ref_cookie self)])
   \<and> (JniMethodFastEndWithReference b x rt result c self = Inr (rte, se, obje) \<longrightarrow>
      filter is_pop (calls_since self se) = [EvSetLocalSegmentState (env_local_ref_cookie self)])
   \<and> (JniMethodEndWithReferenceSynchronized b x rt result c locked self = Inr (rtf, sf, objf)
      \<longrightarrow>
      filter is_pop (calls_since self sf) = [EvSetLocalSegmentState (env_local_ref_cookie self)])"
proof (intro conjI impI, goal_cases)
  case 1
  show ?case
    unfolding GenericJniMethodEnd_Inr [OF 1]
    by (simp add: calls_since_def comp_def generic_end_calls_def pops_unlock pops_pop
        pops_handle pops_mode)
next
  case 2
  show ?case
    unfolding JniMethodEnd_Inr [OF 2] by (simp add: calls_since_def comp_def pops_pop)
next
  case 3
  show ?case
    unfolding JniMethodFastEnd_Inr [OF 3] by (simp add: calls_since_def comp_def pops_pop)
next
  case 4
  show ?case
    unfolding JniMethodEndSynchronized_Inr [OF 4]
    by (simp add: calls_since_def comp_def pops_pop pops_unlock)
next
  case 5
  show ?case
    unfolding JniMethodEndWithReference_Inr(1) [OF 5]
    by (simp add: calls_since_def comp_def pops_handle)
next
  case 6
  show ?case
    unfolding JniMethodFastEndWithReference_Inr(1) [OF 6]
    by (simp add: calls_since_def comp_def pops_handle)
next
  case 7
  show ?case
    unfolding JniMethodEndWithReferenceSynchronized_Inr(1) [OF 7]
    by (simp add: calls_since_def comp_def pops_handle pops_unlock)
qed

text \<open>A thread whose saved cookie is \<open>3\<close>: \<open>GenericJniMethodEnd\<close> of a normal method
  and every other End pop once, \<open>GenericJniMethodEnd\<close> of a critical method that returns
  an \<open>int\<close> does not pop.\<close>

theorem end_pops_scope_once_unless_critical_witness:
  defines "B \<equiv> ex_build False True kArm64"
  defines "X \<equiv> ex_ext True 0"
  defines "RT \<equiv> ex_runtime False"
  defines "M_i \<equiv> ex_method False False False ''I''"
  defines "Mc_i \<equiv> ex_method False True False ''I''"
  defines "S \<equiv> ex_thread kNative 0 0 M_i"
  defines "Ga \<equiv> S
      \<lparr>thr_state := kRunnable, env_local_ref_cookie := 5, env_locals_segment_state := 3,
       trace :=
         [(EvPaletteNotifyEndJniInvocation, kNative),
          (EvTransitionFromSuspendedToRunnable, kNative),
          (EvSetLocalSegmentState 3, kRunnable),
          (EvSetLocalRefCookie 5, kRunnable)]\<rparr>"
  defines "Ea \<equiv> S
      \<lparr>thr_state := kRunnable, env_local_ref_cookie := 5, env_locals_segment_state := 3,
       trace :=
         [(EvTransitionFromSuspendedToRunnable, kNative),
          (EvSetLocalSegmentState 3, kRunnable),
          (EvSetLocalRefCookie 5, kRunnable)]\<rparr>"
  defines "Eb \<equiv> S
      \<lparr>env_local_ref_cookie := 5, env_locals_segment_state := 3,
       trace :=
         [(EvTestAllFlags, kNative), (EvSetLocalSegmentState 3, kNative),
          (EvSetLocalRefCookie 5, kNative)]\<rparr>"
  defines "Ec \<equiv> S
      \<lparr>thr_state := kRunnable, env_local_ref_cookie := 5, env_locals_segment_state := 3,
       trace :=
         [(EvTransitionFromSuspendedToRunnable, kNative),
          (EvDecodeJObject 0x20, kRunnable), (EvMonitorExit 0x1020, kRunnable),
          (EvSetLocalSegmentState 3, kRunnable),
          (EvSetLocalRefCookie 5, kRunnable)]\<rparr>"
  defines "Ed \<equiv> S
      \<lparr>thr_state := kRunnable, env_local_ref_cookie := 5, env_locals_segment_state := 3,
       trace :=
         [(EvTransitionFromSuspendedToRunnable, kNative),
          (EvDecodeJObject 0x44, kRunnable),
          (EvSetLocalSegmentState 3, kRunnable),
          (EvSetLocalRefCookie 5, kRunnable), (EvVerifyObject 0x1044, kRunnable)]\<rparr>"
  defines "Ee \<equiv> S
      \<lparr>env_local_ref_cookie := 5, env_locals_segment_state := 3,
       trace :=
         [(EvTestAllFlags, kNative), (EvDecodeJObject 0x44, kNative),
          (EvSetLocalSegmentState 3, kNative),
          (EvSetLocalRefCookie 5, kNative), (EvVerifyObject 0x1044, kNative)]\<rparr>"
  defines "Ef \<equiv> S
      \<lparr>thr_state := kRunnable, env_local_ref_cookie := 5, env_locals_segment_state := 3,
       trace :=
         [(EvTransitionFromSuspendedToRunnable, kNative),
          (EvDecodeJObject 0x20, kRunnable), (EvMonitorExit 0x1020, kRunnable),
          (EvDecodeJObject 0x44, kRunnable),
          (EvSetLocalSegmentState 3, kRunnable),
          (EvSetLocalRefCookie 5, kRunnable), (EvVerifyObject 0x1044, kRunnable)]\<rparr>"
  shows
    "GenericJniMethodEnd B X RT S 5 ex_jvalue 0 M_i
              = Inr (RT, Ga, 0xFFFFFFFFFFFFFFFD)
     \<and> GenericJniMethodEnd B X RT S 5 ex_jvalue 0 Mc_i
              = Inr (RT, S, 0xFFFFFFFFFFFFFFFD)
     \<and> JniMethodEnd B X RT 5 S = Inr (RT, Ea)
     \<and> JniMethodFastEnd B X 5 S = Inr Eb
     \<and> JniMethodEndSynchronized B X 5 0x20 S = Inr Ec
     \<and> JniMethodEndWithReference B X RT 0x44 5 S = Inr (RT, Ed, 0x1044)
     \<and> JniMethodFastEndWithReference B X RT 0x44 5 S = Inr (RT, Ee, 0x1044)
     \<and> JniMethodEndWithReferenceSynchronized B X RT 0x44 5 0x20 S
              = Inr (RT, Ef, 0x1044)
     \<and> filter is_pop (calls_since S Ga) = [EvSetLocalSegmentState 3]
     \<and> filter is_pop (calls_since S S) = []
     \<and> filter is_pop (calls_since S Ea) = [EvSetLocalSegmentState 3]
     \<and> filter is_pop (calls_since S Eb) = [EvSetLocalSegmentState 3]
     \<and> filter is_pop (calls_since S Ec) = [EvSetLocalSegmentState 3]
     \<and> filter is_pop (calls_since S Ed) = [EvSetLocalSegmentState 3]
     \<and> filter is_pop (calls_since S Ee) = [EvSetLocalSegmentState 3]
     \<and> filter is_pop (calls_since S Ef) = [EvSetLocalSegmentState 3]"
proof -
  note d = B_def X_def RT_def M_i_def Mc_i_def
  have ga: "GenericJniMethodEnd B X RT S 5 ex_jvalue 0 M_i
              = Inr (RT, Ga, 0xFFFFFFFFFFFFFFFD)"
    by (simp add: d S_def Ga_def entrypoint_defs runtime_call_defs example_defs)
  have gc: "GenericJniMethodEnd B X RT S 5 ex_jvalue 0 Mc_i
              = Inr (RT, S, 0xFFFFFFFFFFFFFFFD)"
    by (simp add: d S_def  entrypoint_defs runtime_call_defs example_defs)
  have ea: "JniMethodEnd B X RT 5 S = Inr (RT, Ea)"
    by (simp add: d S_def Ea_def entrypoint_defs runtime_call_defs example_defs)
  have eb: "JniMethodFastEnd B X 5 S = Inr Eb"
    by (simp add: d S_def Eb_def entrypoint_defs runtime_call_defs example_defs)
  have ec: "JniMethodEndSynchronized B X 5 0x20 S = Inr Ec"
    by (simp add: d S_def Ec_def entrypoint_defs runtime_call_defs example_defs)
  have ed: "JniMethodEndWithReference B X RT 0x44 5 S = Inr (RT, Ed, 0x1044)"
    by (simp add: d S_def Ed_def entrypoint_defs runtime_call_defs example_defs)
  have ee: "JniMethodFastEndWithReference B X RT 0x44 5 S = Inr (RT, Ee, 0x1044)"
    by (simp add: d S_def Ee_def entrypoint_defs runtime_call_defs example_defs)
  have ef: "JniMethodEndWithReferenceSynchronized B X RT 0x44 5 0x20 S
              = Inr (RT, Ef, 0x1044)"
    by (simp add: d S_def Ef_def entrypoint_defs runtime_call_defs example_defs)
  note n = end_pops_scope_once_unless_critical [where b = B and x = X
      and rt = RT and self = S and c = 5 and jv = ex_jvalue and result_f = 0
      and result = "0x44" and locked = "0x20"
      and called = M_i and rtg = RT and g = Ga and v = "0xFFFFFFFFFFFFFFFD"
      and rta = RT and sa = Ea and sb = Eb and sc = Ec
      and rtd = RT and sd = Ed and objd = "0x1044"
      and rte = RT and se = Ee and obje = "0x1044"
      and rtf = RT and sf = Ef and objf = "0x1044"]
  note k = end_pops_scope_once_unless_critical [where b = B and x = X
      and rt = RT and self = S and c = 5 and jv = ex_jvalue and result_f = 0
      and called = Mc_i and rtg = RT and g = S and v = "0xFFFFFFFFFFFFFFFD"]
  from n ga ea eb ec ed ee ef have
    "filter is_pop (calls_since S Ga)
       = (if IsCriticalNative M_i \<and> return_shorty M_i \<noteq> CHR ''L'' then []
          else [EvSetLocalSegmentState (env_local_ref_cookie S)])
     \<and> filter is_pop (calls_since S Ea) = [EvSetLocalSegmentState (env_local_ref_cookie S)]
     \<and> filter is_pop (calls_since S Eb) = [EvSetLocalSegmentState (env_local_ref_cookie S)]
     \<and> filter is_pop (calls_since S Ec) = [EvSetLocalSegmentState (env_local_ref_cookie S)]
     \<and> filter is_pop (calls_since S Ed) = [EvSetLocalSegmentState (env_local_ref_cookie S)]
     \<and> filter is_pop (calls_since S Ee) = [EvSetLocalSegmentState (env_local_ref_cookie S)]
     \<and> filter is_pop (calls_since S Ef) = [EvSetLocalSegmentState (env_local_ref_cookie S)]"
    by blast
  moreover from k gc have
    "filter is_pop (calls_since S S)
       = (if IsCriticalNative Mc_i \<and> return_shorty Mc_i \<noteq> CHR ''L'' then []
          else [EvSetLocalSegmentState (env_local_ref_cookie S)])"
    by blast
  ultimately show ?thesis
    using ga gc ea eb ec ed ee ef by (simp add: d S_def return_shorty_def example_defs)
qed

text \<open>The claim as stated fails for the return shorty \<open>L\<close>: \<open>GenericJniMethodEnd\<close> of a
  critical method with that shorty goes through the handler of reference results, which
  pops the scope (the segment state becomes the saved cookie \<open>3\<close>, the saved cookie the
  one passed in).\<close>

theorem critical_reference_end_pops:
  defines "B \<equiv> ex_build False True kArm64"
  defines "X \<equiv> ex_ext True 0"
  defines "RT \<equiv> ex_runtime False"
  defines "Mc_l \<equiv> ex_method False True False ''L''"
  shows
    "GenericJniMethodEnd B X RT
       (ex_thread kRunnable 0 0 Mc_l) 5 ex_jvalue 0
       Mc_l
     = Inr (RT,
            ex_thread kRunnable 0 0 Mc_l
            \<lparr>env_local_ref_cookie := 5, env_locals_segment_state := 3,
             trace :=
               [(EvDecodeJObject 0x44, kRunnable),
                (EvSetLocalSegmentState 3, kRunnable),
                (EvSetLocalRefCookie 5, kRunnable),
                (EvVerifyObject 0x1044, kRunnable)]\<rparr>,
            0x1044)
     \<and> IsCriticalNative Mc_l"
  by (simp add: B_def X_def RT_def Mc_l_def
      entrypoint_defs runtime_call_defs example_defs)

subsection \<open>The result of a method that returns a float\<close>

text \<open>
  C6. Whenever \<open>GenericJniMethodEnd\<close> returns for a method whose return shorty is \<open>F\<close>:
  on x86 the 64-bit payload \<open>result_f\<close> is taken as the bit pattern of a \<open>double\<close>, the
  \<open>double\<close> is converted to \<open>float\<close>, and the value returned is the bit pattern of that
  \<open>float\<close>, zero-extended; on every other instruction set the value returned is the payload
  unchanged, so that its low 32 bits are the low 32 bits of the payload. The conversion
  itself, \<open>ext_static_cast_float\<close>, is a parameter.
\<close>

theorem float_result_narrowing:
  assumes "GenericJniMethodEnd b x rt self c jv result_f called = Inr (rt', s', v)"
    and "return_shorty called = CHR ''F''"
  shows "v = (if kRuntimeISA b = kX86 then ucast (ext_static_cast_float x result_f) else result_f)
    \<and> (ucast v :: 32 word)
        = (if kRuntimeISA b = kX86 then ext_static_cast_float x result_f else ucast result_f)"
proof -
  from GenericJniMethodEnd_value [OF assms(1)] assms(2)
  have "switch_return_shorty b x (CHR ''F'') jv result_f = Some v" by simp
  then have v: "v = (if kRuntimeISA b = kX86 then ucast (ext_static_cast_float x result_f)
                     else result_f)"
    by (simp add: switch_return_shorty_def split: if_splits)
  have "(ucast (ucast (ext_static_cast_float x result_f) :: 64 word) :: 32 word)
          = ext_static_cast_float x result_f"
    by (simp add: ucast_down_ucast_id is_down)
  with v show ?thesis by simp
qed

text \<open>The \<open>double\<close> 1.5 is \<open>0x3FF8000000000000\<close> and the \<open>float\<close> 1.5 is
  \<open>0x3FC00000\<close>: on x86 the first is returned as the second; on arm64 the payload
  \<open>0x3FC00000\<close> is returned as it is.\<close>

theorem float_result_narrowing_witness:
  defines "B \<equiv> ex_build False True kArm64"
  defines "Bx \<equiv> ex_build False True kX86"
  defines "X \<equiv> ex_ext True 0"
  defines "RT \<equiv> ex_runtime False"
  defines "M_f \<equiv> ex_method False False False ''F''"
  defines "S \<equiv> ex_thread kNative 0 0 M_f"
  defines "G \<equiv> S
      \<lparr>thr_state := kRunnable, env_local_ref_cookie := 5, env_locals_segment_state := 3,
       trace :=
         [(EvPaletteNotifyEndJniInvocation, kNative),
          (EvTransitionFromSuspendedToRunnable, kNative),
          (EvSetLocalSegmentState 3, kRunnable),
          (EvSetLocalRefCookie 5, kRunnable)]\<rparr>"
  shows
    "return_shorty M_f = CHR ''F''
     \<and> GenericJniMethodEnd Bx X RT S 5 ex_jvalue
          0x3FF8000000000000 M_f
         = Inr (RT, G, 0x3FC00000)
     \<and> (ucast (0x3FC00000 :: 64 word) :: 32 word) = ieee_double_to_float 0x3FF8000000000000
     \<and> GenericJniMethodEnd B X RT S 5 ex_jvalue
          0x3FC00000 M_f
         = Inr (RT, G, 0x3FC00000)
     \<and> (ucast (0x3FC00000 :: 64 word) :: 32 word) = 0x3FC00000"
proof -
  note d = B_def Bx_def X_def RT_def M_f_def
  have sh: "return_shorty M_f = CHR ''F''"
    by (simp add: d return_shorty_def example_defs)
  have rx: "GenericJniMethodEnd Bx X RT S 5 ex_jvalue
          0x3FF8000000000000 M_f
         = Inr (RT, G, 0x3FC00000)"
    by (simp add: d S_def G_def entrypoint_defs runtime_call_defs example_defs
        ieee_double_to_float_def round_nearest_even_def)
  have ra: "GenericJniMethodEnd B X RT S 5 ex_jvalue
          0x3FC00000 M_f
         = Inr (RT, G, 0x3FC00000)"
    by (simp add: d S_def G_def entrypoint_defs runtime_call_defs example_defs
        ieee_double_to_float_def round_nearest_even_def)
  from float_result_narrowing [OF rx sh] float_result_narrowing [OF ra sh] sh rx ra
  show ?thesis by (simp add: d example_defs)
qed

subsection \<open>Fast and critical calls\<close>

text \<open>
  C7, as amended. Take a thread that is Runnable. \<open>JniMethodFastStart\<close>,
  \<open>JniMethodFastEnd\<close>, \<open>JniMethodFastEndWithReference\<close>, and \<open>GenericJniMethodEnd\<close> of a
  fast or a critical method make neither transition, make every call of theirs with the
  thread Runnable, and leave it Runnable. The Ends of a fast method run the suspend check
  exactly once when a flag of the thread is raised and not at all otherwise.
  \<open>GenericJniMethodEnd\<close> of a critical method that is not fast runs no suspend check,
  whether a flag is raised or not.
\<close>

theorem fast_and_critical_stay_runnable:
  assumes "thr_state self = kRunnable"
  shows
   "(JniMethodFastStart b self = Inr (fa, cf) \<longrightarrow>
       thr_state fa = kRunnable
       \<and> filter is_transition (calls_since self fa) = []
       \<and> set (states_since self fa) \<subseteq> {kRunnable})
    \<and> (JniMethodFastEnd b x c self = Inr fb \<longrightarrow>
       thr_state fb = kRunnable
       \<and> filter is_transition (calls_since self fb) = []
       \<and> set (states_since self fb) \<subseteq> {kRunnable}
       \<and> filter is_check_suspend (calls_since self fb)
           = (if thr_flags self \<noteq> 0 then [EvCheckSuspend] else []))
    \<and> (JniMethodFastEndWithReference b x rt result c self = Inr (rtc, fc, objc) \<longrightarrow>
       thr_state fc = kRunnable
       \<and> filter is_transition (calls_since self fc) = []
       \<and> set (states_since self fc) \<subseteq> {kRunnable}
       \<and> filter is_check_suspend (calls_since self fc)
           = (if thr_flags self \<noteq> 0 then [EvCheckSuspend] else []))
    \<and> (GenericJniMethodEnd b x rt self c jv result_f called = Inr (rtg, g, v)
        \<and> (IsFastNative called \<or> IsCriticalNative called) \<longrightarrow>
       thr_state g = kRunnable
       \<and> filter is_transition (calls_since self g) = []
       \<and> set (states_since self g) \<subseteq> {kRunnable}
       \<and> filter is_check_suspend (calls_since self g)
           = (if IsFastNative called \<and> thr_flags self \<noteq> 0 then [EvCheckSuspend] else []))"
proof ((intro conjI impI; (elim conjE)?), goal_cases)
  case 1
  show ?case unfolding JniMethodFastStart_Inr(1) [OF 1] using assms by simp
next
  case 2
  show ?case unfolding JniMethodFastStart_Inr(1) [OF 2] by (simp add: calls_since_def)
next
  case 3
  show ?case unfolding JniMethodFastStart_Inr(1) [OF 3] using assms
    by (simp add: states_since_def)
next
  case 4
  show ?case unfolding JniMethodFastEnd_Inr [OF 4] using assms by simp
next
  case 5
  show ?case unfolding JniMethodFastEnd_Inr [OF 5]
    by (simp add: calls_since_def comp_def transitions_pop)
next
  case 6
  show ?case unfolding JniMethodFastEnd_Inr [OF 6] using assms
    by (auto simp: states_since_def comp_def)
next
  case 7
  show ?case unfolding JniMethodFastEnd_Inr [OF 7]
    by (simp add: calls_since_def comp_def suspends_pop)
next
  case 8
  show ?case unfolding JniMethodFastEndWithReference_Inr(1) [OF 8] using assms by simp
next
  case 9
  show ?case unfolding JniMethodFastEndWithReference_Inr(1) [OF 9]
    by (simp add: calls_since_def comp_def transitions_handle)
next
  case 10
  show ?case unfolding JniMethodFastEndWithReference_Inr(1) [OF 10] using assms
    by (auto simp: states_since_def comp_def)
next
  case 11
  show ?case unfolding JniMethodFastEndWithReference_Inr(1) [OF 11]
    by (simp add: calls_since_def comp_def suspends_handle)
next
  case 12
  show ?case unfolding GenericJniMethodEnd_Inr [OF 12(1)] using assms 12(2) by auto
next
  case 13
  show ?case unfolding GenericJniMethodEnd_Inr [OF 13(1)] using 13(2)
    by (auto simp: calls_since_def comp_def generic_end_calls_def mode_steps_def
        transitions_pop transitions_unlock transitions_handle)
next
  case 14
  show ?case unfolding GenericJniMethodEnd_Inr [OF 14(1)] using assms 14(2)
    by (auto simp: states_since_def comp_def)
next
  case 15
  show ?case unfolding GenericJniMethodEnd_Inr [OF 15(1)] using 15(2)
    by (auto simp: calls_since_def comp_def generic_end_calls_def mode_steps_def
        suspends_pop suspends_unlock suspends_handle)
qed

text \<open>A Runnable thread in a fast method with a flag raised: the Start makes no transition,
  and each End runs the suspend check once.\<close>

theorem fast_and_critical_stay_runnable_witness:
  defines "B \<equiv> ex_build False True kArm64"
  defines "X \<equiv> ex_ext True 0"
  defines "RT \<equiv> ex_runtime False"
  defines "Mf_i \<equiv> ex_method True False False ''I''"
  defines "S \<equiv> ex_thread kRunnable 1 0 Mf_i"
  defines "Fa \<equiv> S
      \<lparr>env_local_ref_cookie := 7,
       trace :=
         [(EvSetLocalRefCookie 7, kRunnable)]\<rparr>"
  defines "Fb \<equiv> S
      \<lparr>env_local_ref_cookie := 5, env_locals_segment_state := 3,
       trace :=
         [(EvTestAllFlags, kRunnable), (EvCheckSuspend, kRunnable),
          (EvSetLocalSegmentState 3, kRunnable),
          (EvSetLocalRefCookie 5, kRunnable)]\<rparr>"
  defines "Fc \<equiv> S
      \<lparr>env_local_ref_cookie := 5, env_locals_segment_state := 3,
       trace :=
         [(EvTestAllFlags, kRunnable), (EvCheckSuspend, kRunnable),
          (EvDecodeJObject 0x44, kRunnable),
          (EvSetLocalSegmentState 3, kRunnable),
          (EvSetLocalRefCookie 5, kRunnable), (EvVerifyObject 0x1044, kRunnable)]\<rparr>"
  shows
    "thr_state S = kRunnable
     \<and> JniMethodFastStart B S = Inr (Fa, 3)
     \<and> JniMethodFastEnd B X 5 S = Inr Fb
     \<and> JniMethodFastEndWithReference B X RT 0x44 5 S
         = Inr (RT, Fc, 0x1044)
     \<and> GenericJniMethodEnd B X RT S 5 ex_jvalue 0 Mf_i
         = Inr (RT, Fb, 0xFFFFFFFFFFFFFFFD)
     \<and> thr_state Fa = kRunnable \<and> filter is_transition (calls_since S Fa) = []
     \<and> set (states_since S Fa) \<subseteq> {kRunnable}
     \<and> thr_state Fb = kRunnable \<and> filter is_transition (calls_since S Fb) = []
     \<and> set (states_since S Fb) \<subseteq> {kRunnable}
     \<and> filter is_check_suspend (calls_since S Fb) = [EvCheckSuspend]
     \<and> thr_state Fc = kRunnable \<and> filter is_transition (calls_since S Fc) = []
     \<and> set (states_since S Fc) \<subseteq> {kRunnable}
     \<and> filter is_check_suspend (calls_since S Fc) = [EvCheckSuspend]"
proof -
  note d = B_def X_def RT_def Mf_i_def
  have st: "thr_state S = kRunnable" by (simp add: d S_def example_defs)
  have ra: "JniMethodFastStart B S = Inr (Fa, 3)"
    by (simp add: d S_def Fa_def entrypoint_defs runtime_call_defs example_defs)
  have rb: "JniMethodFastEnd B X 5 S = Inr Fb"
    by (simp add: d S_def Fb_def entrypoint_defs runtime_call_defs example_defs)
  have rc: "JniMethodFastEndWithReference B X RT 0x44 5 S
         = Inr (RT, Fc, 0x1044)"
    by (simp add: d S_def Fc_def entrypoint_defs runtime_call_defs example_defs)
  have rg: "GenericJniMethodEnd B X RT S 5 ex_jvalue 0 Mf_i
         = Inr (RT, Fb, 0xFFFFFFFFFFFFFFFD)"
    by (simp add: d S_def Fb_def entrypoint_defs runtime_call_defs example_defs)
  have fl: "IsFastNative Mf_i \<and> thr_flags S \<noteq> 0"
    by (simp add: d S_def example_defs)
  note t = fast_and_critical_stay_runnable [OF st, where b = B and x = X
      and rt = RT and result = "0x44" and c = 5 and jv = ex_jvalue and result_f = 0
      and called = Mf_i and fa = Fa and cf = 3 and fb = Fb
      and rtc = RT and fc = Fc and objc = "0x1044"
      and rtg = RT and g = Fb and v = "0xFFFFFFFFFFFFFFFD"]
  from t ra rb rc rg fl have
    "thr_state Fa = kRunnable \<and> filter is_transition (calls_since S Fa) = []
     \<and> set (states_since S Fa) \<subseteq> {kRunnable}
     \<and> thr_state Fb = kRunnable \<and> filter is_transition (calls_since S Fb) = []
     \<and> set (states_since S Fb) \<subseteq> {kRunnable}
     \<and> filter is_check_suspend (calls_since S Fb) = [EvCheckSuspend]
     \<and> thr_state Fc = kRunnable \<and> filter is_transition (calls_since S Fc) = []
     \<and> set (states_since S Fc) \<subseteq> {kRunnable}
     \<and> filter is_check_suspend (calls_since S Fc) = [EvCheckSuspend]"
    by simp
  with st ra rb rc rg show ?thesis by blast
qed

text \<open>The claim as stated fails for a critical call: with a flag raised,
  \<open>GenericJniMethodEnd\<close> of a critical method returns without having made any call, so the
  suspend check has not run.\<close>

theorem critical_end_runs_no_suspend_check:
  defines "B \<equiv> ex_build False True kArm64"
  defines "X \<equiv> ex_ext True 0"
  defines "RT \<equiv> ex_runtime False"
  defines "Mc_i \<equiv> ex_method False True False ''I''"
  shows
    "GenericJniMethodEnd B X RT
       (ex_thread kRunnable 1 0 Mc_i) 5 ex_jvalue 0
       Mc_i
     = Inr (RT, ex_thread kRunnable 1 0 Mc_i,
            0xFFFFFFFFFFFFFFFD)
     \<and> thr_flags (ex_thread kRunnable 1 0 Mc_i) = 1
     \<and> IsCriticalNative Mc_i
     \<and> \<not> IsFastNative Mc_i"
  by (simp add: B_def X_def RT_def Mc_i_def
      entrypoint_defs runtime_call_defs example_defs)

subsection \<open>The read barrier of the declaring class\<close>

text \<open>
  C8, as amended. For every root that is not null, in a build that uses a read barrier:
  when the build uses the Baker read barrier and the mark bit of the referent is set,
  \<open>ReadBarrierJni\<close> leaves the root as it is and calls nothing; otherwise, that is when the
  mark bit is not set or the read barrier of the build is not the Baker barrier, it calls
  the general barrier routine and the root becomes what the routine returns.
\<close>

theorem ReadBarrierJni_root:
  assumes "declaring_class \<noteq> 0" and "kUseReadBarrier b"
  shows "ReadBarrierJni b x declaring_class self =
     (if kUseBakerReadBarrier b \<and> ext_GetMarkBit x declaring_class \<noteq> 0
      then Inr (self, declaring_class)
      else Inr (self\<lparr>trace := trace self
                   @ [(EvBarrierForRoot declaring_class, thr_state self)]\<rparr>,
                ext_BarrierForRoot x declaring_class))"
  using assms by (simp add: ReadBarrierJni_def emit_def Let_def)

text \<open>With the Baker barrier, the class \<open>0x50\<close>, whose mark bit is set, stays; the class
  \<open>0x60\<close>, whose mark bit is not set, becomes what the barrier returns.\<close>

theorem ReadBarrierJni_root_witness:
  defines "B \<equiv> ex_build False True kArm64"
  defines "X \<equiv> ex_ext True 0"
  defines "M_i \<equiv> ex_method False False False ''I''"
  defines "S \<equiv> ex_thread kRunnable 0 0 M_i"
  defines "Sb \<equiv> S
      \<lparr>trace :=
        [(EvBarrierForRoot 0x60, kRunnable)]\<rparr>"
  shows
    "(0x50 :: objptr) \<noteq> 0 \<and> (0x60 :: objptr) \<noteq> 0 \<and> kUseReadBarrier B
     \<and> ReadBarrierJni B X 0x50 S = Inr (S, 0x50)
     \<and> ReadBarrierJni B X 0x60 S = Inr (Sb, 0x68)"
proof -
  note d = B_def X_def M_i_def
  have a: "(0x50 :: objptr) \<noteq> 0" and b: "(0x60 :: objptr) \<noteq> 0" by simp_all
  have k: "kUseReadBarrier B" by (simp add: d example_defs)
  from ReadBarrierJni_root [OF a k, of X S] ReadBarrierJni_root [OF b k, of X S] k
  show ?thesis by (simp add: d S_def Sb_def example_defs)
qed

text \<open>The claim as stated fails in a build whose read barrier is not the Baker barrier: the
  mark bit of the class \<open>0x50\<close> is set, and still the barrier routine is called and the
  root is overwritten.\<close>

theorem ReadBarrierJni_marked_root_without_baker:
  defines "Bn \<equiv> ex_build False False kArm64"
  defines "X \<equiv> ex_ext True 0"
  defines "M_i \<equiv> ex_method False False False ''I''"
  shows
    "ReadBarrierJni Bn X 0x50
       (ex_thread kRunnable 0 0 M_i)
     = Inr (ex_thread kRunnable 0 0 M_i
            \<lparr>trace :=
              [(EvBarrierForRoot 0x50, kRunnable)]\<rparr>,
            0x58)
     \<and> ext_GetMarkBit X 0x50 = 1"
  by (simp add: Bn_def X_def M_i_def
      entrypoint_defs runtime_call_defs example_defs)

subsection \<open>The added tracing\<close>

text \<open>
  C9. For every input, what an entrypoint returns (the cookie of a Start, the value of an
  End) and the thread it leaves behind (scope, state, exception slot and the calls made),
  or the abort it ends in, are the same for any two values of the runtime's tracing
  configuration (\<open>isJNIMethodPrint\<close>, \<open>jniFuncName\<close>, \<open>jniEnable\<close>) and log. This is
  stated for every entrypoint that reads the configuration, directly or through a callee.
\<close>

theorem tracing_does_not_interfere:
  "drop_rt (JniMethodStart b rta self) = drop_rt (JniMethodStart b rtb self)
   \<and> drop_rt (JniMethodStartSynchronized b x rta to_lock self)
       = drop_rt (JniMethodStartSynchronized b x rtb to_lock self)
   \<and> drop_rt (JniMethodEnd b x rta c self) = drop_rt (JniMethodEnd b x rtb c self)
   \<and> drop_rt (JniMethodEndWithReferenceHandleResult x rta result c self)
       = drop_rt (JniMethodEndWithReferenceHandleResult x rtb result c self)
   \<and> drop_rt (JniMethodEndWithReference b x rta result c self)
       = drop_rt (JniMethodEndWithReference b x rtb result c self)
   \<and> drop_rt (JniMethodFastEndWithReference b x rta result c self)
       = drop_rt (JniMethodFastEndWithReference b x rtb result c self)
   \<and> drop_rt (JniMethodEndWithReferenceSynchronized b x rta result c locked self)
       = drop_rt (JniMethodEndWithReferenceSynchronized b x rtb result c locked self)
   \<and> drop_rt (GenericJniMethodEnd b x rta self c jv result_f called)
       = drop_rt (GenericJniMethodEnd b x rtb self c jv result_f called)
   \<and> drop_rt (JniMonitoredMethodStart b x rta self)
       = drop_rt (JniMonitoredMethodStart b x rtb self)
   \<and> drop_rt (JniMonitoredMethodStartSynchronized b x rta to_lock self)
       = drop_rt (JniMonitoredMethodStartSynchronized b x rtb to_lock self)
   \<and> drop_rt (JniMonitoredMethodEnd b x rta c self)
       = drop_rt (JniMonitoredMethodEnd b x rtb c self)
   \<and> drop_rt (JniMonitoredMethodEndWithReference b x rta result c self)
       = drop_rt (JniMonitoredMethodEndWithReference b x rtb result c self)
   \<and> drop_rt (JniMonitoredMethodEndWithReferenceSynchronized b x rta result c locked self)
       = drop_rt (JniMonitoredMethodEndWithReferenceSynchronized b x rtb result c locked self)"
proof (intro conjI, goal_cases)
  case 1 show ?case by (rule JniMethodStart_indep)
next
  case 2 show ?case
    by (simp add: JniMethodStartSynchronized_def JniMethodStart_indep [of b rta _ rtb]
        split: prod.splits)
next
  case 3 show ?case by (rule JniMethodEnd_indep)
next
  case 4 show ?case by (rule HandleResult_indep)
next
  case 5 show ?case
    by (simp add: JniMethodEndWithReference_def drop_rt_and_then
        HandleResult_indep [of x rta _ _ _ rtb])
next
  case 6 show ?case
    by (simp add: JniMethodFastEndWithReference_def drop_rt_and_then
        HandleResult_indep [of x rta _ _ _ rtb])
next
  case 7 show ?case
    by (simp add: JniMethodEndWithReferenceSynchronized_def drop_rt_and_then
        HandleResult_indep [of x rta _ _ _ rtb])
next
  case 8 show ?case by (rule GenericJniMethodEnd_indep)
next
  case 9 show ?case
    by (simp add: JniMonitoredMethodStart_def drop_rt_monitored_start
        JniMethodStart_indep [of b rta _ rtb])
next
  case 10 show ?case
    by (simp add: JniMonitoredMethodStartSynchronized_def drop_rt_monitored_start
        JniMethodStartSynchronized_def JniMethodStart_indep [of b rta _ rtb] split: prod.splits)
next
  case 11 show ?case
    by (simp add: JniMonitoredMethodEnd_def JniMethodEnd_indep [of b x rta _ _ rtb])
next
  case 12 show ?case
    by (simp add: JniMonitoredMethodEndWithReference_def JniMethodEndWithReference_def
        drop_rt_and_then HandleResult_indep [of x rta _ _ _ rtb])
next
  case 13 show ?case
    by (simp add: JniMonitoredMethodEndWithReferenceSynchronized_def
        JniMethodEndWithReferenceSynchronized_def
        drop_rt_and_then HandleResult_indep [of x rta _ _ _ rtb])
qed

text \<open>With tracing enabled for a method whose name contains the filter \<open>bar\<close>,
  \<open>JniMethodStart\<close> writes to the log and sets \<open>jniEnable\<close>; the thread and the cookie
  are those of the run with tracing disabled.\<close>

theorem tracing_does_not_interfere_witness:
  defines "B \<equiv> ex_build False True kArm64"
  defines "RT \<equiv> ex_runtime False"
  defines "RTt \<equiv> ex_runtime True"
  defines "M_i \<equiv> ex_method False False False ''I''"
  defines "S \<equiv> ex_thread kRunnable 0 0 M_i"
  defines "Sa \<equiv> S
      \<lparr>thr_state := kNative, env_local_ref_cookie := 7,
       trace :=
         [(EvSetLocalRefCookie 7, kRunnable),
          (EvTransitionFromRunnableToSuspended kNative, kRunnable)]\<rparr>"
  shows
    "JniMethodStart B RTt S
       = Inr (RTt\<lparr>jniEnable := True,
                 logcat := [''[ROM] enter jni int Foo.bar(int)'']\<rparr>, Sa, 3)
     \<and> JniMethodStart B RT S = Inr (RT, Sa, 3)
     \<and> drop_rt (JniMethodStart B RTt S)
         = drop_rt (JniMethodStart B RT S)"
proof -
  note d = B_def RT_def RTt_def M_i_def
  have on: "JniMethodStart B RTt S
       = Inr (RTt\<lparr>jniEnable := True,
                 logcat := [''[ROM] enter jni int Foo.bar(int)'']\<rparr>, Sa, 3)"
    by (simp add: d S_def Sa_def entrypoint_defs runtime_call_defs example_defs)
  have off: "JniMethodStart B RT S = Inr (RT, Sa, 3)"
    by (simp add: d S_def Sa_def entrypoint_defs runtime_call_defs example_defs)
  from tracing_does_not_interfere [where b = B and rta = RTt
      and rtb = RT and self = S]
  have "drop_rt (JniMethodStart B RTt S)
         = drop_rt (JniMethodStart B RT S)"
    by blast
  with on off show ?thesis by blast
qed

subsection \<open>The Start of a synchronized method\<close>

text \<open>
  C10. Whenever \<open>JniMethodStartSynchronized\<close> returns for a thread that was Runnable, the
  calls it has made are, in this order and each with the thread still Runnable: the decoding
  of the lock handle, the entering of the monitor of the object, the push of the local
  reference scope, and the transition to the native state; the thread is then in the native
  state, and the cookie returned is the saved cookie the thread had, which is the cookie
  that \<open>JniMethodStart\<close> returns for the same thread.
\<close>

theorem JniMethodStartSynchronized_enters_monitor_first:
  assumes "JniMethodStartSynchronized b x rt to_lock self = Inr (rt', s', c)"
    and "thr_state self = kRunnable"
  shows "trace s' = trace self
            @ [(EvDecodeJObject to_lock, kRunnable),
               (EvMonitorEnter (ext_DecodeJObject x to_lock), kRunnable),
               (EvSetLocalRefCookie (env_locals_segment_state self), kRunnable),
               (EvTransitionFromRunnableToSuspended kNative, kRunnable)]
         \<and> thr_state s' = kNative
         \<and> c = env_local_ref_cookie self
         \<and> (\<exists>s0. JniMethodStart b rt self = Inr (rt', s0, c))"
proof -
  have t: "trace s' = trace self
            @ [(EvDecodeJObject to_lock, kRunnable),
               (EvMonitorEnter (ext_DecodeJObject x to_lock), kRunnable),
               (EvSetLocalRefCookie (env_locals_segment_state self), kRunnable),
               (EvTransitionFromRunnableToSuspended kNative, kRunnable)]"
    unfolding JniMethodStartSynchronized_Inr(1) [OF assms(1)] using assms(2) by simp
  have st: "thr_state s' = kNative"
    unfolding JniMethodStartSynchronized_Inr(1) [OF assms(1)] by simp
  have c: "c = env_local_ref_cookie self"
    by (rule JniMethodStartSynchronized_Inr(2) [OF assms(1)])
  have "\<exists>s0. JniMethodStart b rt self = Inr (rt', s0, c)"
    using assms(1)
    by (cases self)
      (auto simp: JniMethodStartSynchronized_def JniMethodStart_def DecodeJObject_def
        MonitorEnter_def SetLocalRefCookie_def emit_def Let_def split: if_splits)
  with t st c show ?thesis by blast
qed

text \<open>A Runnable thread with saved cookie \<open>3\<close> and segment state \<open>7\<close>, and the lock
  handle \<open>0x20\<close> of the object \<open>0x1020\<close>.\<close>

theorem JniMethodStartSynchronized_enters_monitor_first_witness:
  defines "B \<equiv> ex_build False True kArm64"
  defines "X \<equiv> ex_ext True 0"
  defines "RT \<equiv> ex_runtime False"
  defines "Ms_i \<equiv> ex_method False False True ''I''"
  defines "S \<equiv> ex_thread kRunnable 0 0 Ms_i"
  defines "Sa \<equiv> S
      \<lparr>thr_state := kNative, env_local_ref_cookie := 7,
       trace :=
         [(EvDecodeJObject 0x20, kRunnable),
          (EvMonitorEnter 0x1020, kRunnable),
          (EvSetLocalRefCookie 7, kRunnable),
          (EvTransitionFromRunnableToSuspended kNative, kRunnable)]\<rparr>"
  defines "Sb \<equiv> S
      \<lparr>thr_state := kNative, env_local_ref_cookie := 7,
       trace :=
         [(EvSetLocalRefCookie 7, kRunnable),
          (EvTransitionFromRunnableToSuspended kNative, kRunnable)]\<rparr>"
  shows
    "thr_state S = kRunnable
     \<and> JniMethodStartSynchronized B X RT 0x20 S = Inr (RT, Sa, 3)
     \<and> JniMethodStart B RT S = Inr (RT, Sb, 3)
     \<and> trace Sa = [(EvDecodeJObject 0x20, kRunnable), (EvMonitorEnter 0x1020, kRunnable),
                    (EvSetLocalRefCookie 7, kRunnable),
                    (EvTransitionFromRunnableToSuspended kNative, kRunnable)]
     \<and> thr_state Sa = kNative
     \<and> env_local_ref_cookie S = 3"
proof -
  note d = B_def X_def RT_def Ms_i_def
  have st: "thr_state S = kRunnable" by (simp add: d S_def example_defs)
  have ra: "JniMethodStartSynchronized B X RT 0x20 S
              = Inr (RT, Sa, 3)"
    by (simp add: d S_def Sa_def entrypoint_defs runtime_call_defs example_defs)
  have rb: "JniMethodStart B RT S = Inr (RT, Sb, 3)"
    by (simp add: d S_def Sb_def entrypoint_defs runtime_call_defs example_defs)
  from JniMethodStartSynchronized_enters_monitor_first [OF ra st] st ra rb
  show ?thesis by (simp add: d S_def example_defs)
qed

end
